theory Spec2Isabelle
  imports Main "HOL-Library.AList" "HOL-Library.Char_ord" "HOL-Library.List_Lexorder"
begin

section \<open>Go values used by the server\<close>

text \<open>
  A Go \<open>string\<close> is a sequence of bytes; Isabelle's \<open>string\<close> is a list of 8-bit
  characters, so \<open>[]byte(s)\<close> and \<open>string(b)\<close> are both the identity here.
\<close>

datatype errno = ENOENT | ENOTDIR | EISDIR | ENOTEMPTY | EEXIST | EINVAL | EBUSY | ENOSPC

text \<open>
  The \<open>error\<close> values the code meets: \<open>errors.New(msg)\<close>, an \<open>*os.PathError\<close>
  (operation, path, errno) from the \<open>os\<close> package, the error of a failed \<open>os.Getwd\<close>,
  \<open>base64.CorruptInputError\<close>, and \<open>echo.NewHTTPError(code, message)\<close>.
\<close>

datatype go_error =
    ErrorString string
  | PathError string string errno
  | GetwdError
  | CorruptInputError
  | HTTPError nat string

text \<open>
  The process environment the provider reads: the result of \<open>os.Getwd()\<close>, the clock that
  stamps modified files, the size the file system reports for a directory, the number of
  bytes of file data the storage still accepts (\<open>None\<close> when there is no limit), and the
  text that the library errors render through \<open>Error()\<close>.
\<close>

record os_env =
  getwd :: "go_error + string"
  clock :: nat
  dir_size :: int
  disk_free :: "nat option"
  lib_error_text :: "go_error \<Rightarrow> string"

text \<open>\<open>err.Error()\<close>: an \<open>errors.New\<close> value renders its own message.\<close>

definition Error :: "os_env \<Rightarrow> go_error \<Rightarrow> string" where
  "Error env e = (case e of ErrorString s \<Rightarrow> s | _ \<Rightarrow> lib_error_text env e)"

section \<open>Package strings\<close>

definition strings_HasPrefix :: "string \<Rightarrow> string \<Rightarrow> bool" where
  "strings_HasPrefix s pre = (take (length pre) s = pre)"

fun strings_Contains :: "string \<Rightarrow> string \<Rightarrow> bool" where
  "strings_Contains [] sub = (sub = [])"
| "strings_Contains (c # cs) sub = (strings_HasPrefix (c # cs) sub \<or> strings_Contains cs sub)"

text \<open>\<open>strings.Split(s, sep)\<close> for a separator of one byte: never the empty list.\<close>

fun strings_Split :: "string \<Rightarrow> char \<Rightarrow> string list" where
  "strings_Split [] sep = [[]]"
| "strings_Split (c # cs) sep =
     (if c = sep then [] # strings_Split cs sep
      else (case strings_Split cs sep of [] \<Rightarrow> [[c]] | p # ps \<Rightarrow> (c # p) # ps))"

fun strings_Join :: "string list \<Rightarrow> string \<Rightarrow> string" where
  "strings_Join [] sep = []"
| "strings_Join [x] sep = x"
| "strings_Join (x # y # ys) sep = x @ sep @ strings_Join (y # ys) sep"

section \<open>Package path/filepath (Unix)\<close>

definition filepath_IsAbs :: "string \<Rightarrow> bool" where
  "filepath_IsAbs path = strings_HasPrefix path ''/''"

text \<open>
  \<open>filepath.Clean\<close> processes the path element by element, writing to an output buffer:
  an empty element and \<open>.\<close> are dropped; \<open>..\<close> removes the last element written unless
  there is none or it is itself a kept \<open>..\<close>, in which case a rooted path drops it and an
  unrooted path keeps it; any other element is appended. The buffer is held here as the
  list of elements written, last one first.
\<close>

definition clean_elem :: "bool \<Rightarrow> string \<Rightarrow> string list \<Rightarrow> string list" where
  "clean_elem rooted e out =
     (if e = [] \<or> e = ''.'' then out
      else if e = ''..'' then
        (if out \<noteq> [] \<and> hd out \<noteq> ''..'' then tl out
         else if \<not> rooted then ''..'' # out
         else out)
      else e # out)"

definition filepath_Clean :: "string \<Rightarrow> string" where
  "filepath_Clean path =
     (let rooted = filepath_IsAbs path;
          out = fold (clean_elem rooted) (strings_Split path (CHR ''/'')) [];
          body = strings_Join (rev out) ''/''
      in if rooted then ''/'' @ body
         else if body = [] then ''.''
         else body)"

text \<open>
  \<open>filepath.Join(a, b)\<close>: the elements from the first non-empty one on are joined with
  \<open>/\<close> and cleaned; the empty string if both are empty.
\<close>

definition filepath_Join :: "string \<Rightarrow> string \<Rightarrow> string" where
  "filepath_Join a b =
     (if a \<noteq> [] then filepath_Clean (a @ ''/'' @ b)
      else if b \<noteq> [] then filepath_Clean b
      else [])"

definition filepath_Abs :: "os_env \<Rightarrow> string \<Rightarrow> go_error + string" where
  "filepath_Abs env path =
     (if filepath_IsAbs path then Inr (filepath_Clean path)
      else (case getwd env of
              Inl err \<Rightarrow> Inl err
            | Inr wd \<Rightarrow> Inr (filepath_Join wd path)))"

text \<open>\<open>filepath.Dir\<close>: everything up to the last separator, cleaned.\<close>

definition filepath_Dir :: "string \<Rightarrow> string" where
  "filepath_Dir path =
     filepath_Clean (rev (dropWhile (\<lambda>c. c \<noteq> CHR ''/'') (rev path)))"

text \<open>
  The elements \<open>filepath.Clean\<close> has kept for a path, and what every kept element
  satisfies.
\<close>

definition clean_out :: "string \<Rightarrow> string list" where
  "clean_out path = fold (clean_elem (filepath_IsAbs path)) (strings_Split path (CHR ''/'')) []"

definition kept :: "string \<Rightarrow> bool" where
  "kept e = (e \<noteq> [] \<and> e \<noteq> ''.'' \<and> CHR ''/'' \<notin> set e)"

text \<open>
  A path climbs above the directory it starts from when, reading its elements from the
  left at depth \<open>d\<close>, some \<open>..\<close> is met at depth 0; a name goes one level down,
  \<open>..\<close> one level up, and empty elements and \<open>.\<close> stay.
\<close>

fun climbs :: "nat \<Rightarrow> string list \<Rightarrow> bool" where
  "climbs d [] = False"
| "climbs d (e # es) =
     (if e = [] \<or> e = ''.'' then climbs d es
      else if e = ''..'' then (d = 0 \<or> climbs (d - 1) es)
      else climbs (Suc d) es)"

definition climbs_above_start :: "string \<Rightarrow> bool" where
  "climbs_above_start path = climbs 0 (strings_Split path (CHR ''/''))"

section \<open>The filesystem provider: path resolution\<close>

record FilesystemProvider =
  rootDir :: string

definition NewFilesystemProvider :: FilesystemProvider where
  "NewFilesystemProvider = \<lparr>rootDir = ''.''\<rparr>"

definition PathEscape :: go_error where
  "PathEscape = ErrorString ''path attempts to access parent directory outside of root''"

definition OutsideRoot :: go_error where
  "OutsideRoot = ErrorString ''path is outside of root directory''"

definition resolvePath :: "FilesystemProvider \<Rightarrow> os_env \<Rightarrow> string \<Rightarrow> go_error + string" where
  "resolvePath p env path =
     (if filepath_IsAbs path then Inr path
      else
        let cleanPath = filepath_Clean path in
        if strings_HasPrefix cleanPath ''..'' \<or> strings_Contains cleanPath ''/../''
        then Inl PathEscape
        else
          let fullPath = filepath_Join (rootDir p) cleanPath in
          (case filepath_Abs env fullPath of
             Inl err \<Rightarrow> Inl err
           | Inr absPath \<Rightarrow>
               if filepath_IsAbs (rootDir p) then
                 (case filepath_Abs env (rootDir p) of
                    Inl err \<Rightarrow> Inl err
                  | Inr rootAbs \<Rightarrow>
                      if \<not> strings_HasPrefix absPath rootAbs then Inl OutsideRoot
                      else Inr absPath)
               else Inr absPath))"

section \<open>Package encoding/base64: StdEncoding\<close>

definition b64_alphabet :: string where
  "b64_alphabet = ''ABCDEFGHIJKLMNOPQRSTUVWXYZabcdefghijklmnopqrstuvwxyz0123456789+/''"

text \<open>
  The bit operations of the encoder and decoder on the 24-bit group value, as arithmetic:
  \<open>val >> k & 0x3F\<close>, \<open>byte(val >> k)\<close>, \<open>b0<<16 | b1<<8 | b2\<close> and
  \<open>d0<<18 | d1<<12 | d2<<6 | d3\<close>.
\<close>

definition sextet :: "nat \<Rightarrow> nat \<Rightarrow> nat" where
  "sextet val k = (val div 2 ^ k) mod 64"

definition octet :: "nat \<Rightarrow> nat \<Rightarrow> char" where
  "octet val k = char_of ((val div 2 ^ k) mod 256)"

definition pack3 :: "char \<Rightarrow> char \<Rightarrow> char \<Rightarrow> nat" where
  "pack3 b0 b1 b2 = of_char b0 * 65536 + of_char b1 * 256 + of_char b2"

definition pack4 :: "nat \<Rightarrow> nat \<Rightarrow> nat \<Rightarrow> nat \<Rightarrow> nat" where
  "pack4 d0 d1 d2 d3 = d0 * 262144 + d1 * 4096 + d2 * 64 + d3"

definition b64_char :: "nat \<Rightarrow> char" where
  "b64_char i = b64_alphabet ! i"

fun index_of :: "char \<Rightarrow> string \<Rightarrow> nat option" where
  "index_of c [] = None"
| "index_of c (x # xs) = (if c = x then Some 0 else map_option Suc (index_of c xs))"

definition b64_value :: "char \<Rightarrow> nat option" where
  "b64_value c = index_of c b64_alphabet"

text \<open>
  \<open>EncodeToString\<close>: three bytes become four characters; a last group of one or two
  bytes is padded with \<open>=\<close>.
\<close>

fun base64_EncodeToString :: "string \<Rightarrow> string" where
  "base64_EncodeToString [] = []"
| "base64_EncodeToString [a] =
     (let val = pack3 a (CHR 0x00) (CHR 0x00)
      in [b64_char (sextet val 18), b64_char (sextet val 12), CHR ''='', CHR ''=''])"
| "base64_EncodeToString [a, b] =
     (let val = pack3 a b (CHR 0x00)
      in [b64_char (sextet val 18), b64_char (sextet val 12), b64_char (sextet val 6), CHR ''=''])"
| "base64_EncodeToString (a # b # c # rest) =
     (let val = pack3 a b c
      in [b64_char (sextet val 18), b64_char (sextet val 12), b64_char (sextet val 6),
          b64_char (sextet val 0)]
         @ base64_EncodeToString rest)"

text \<open>
  \<open>DecodeString\<close> ignores \<open>\r\<close> and \<open>\n\<close>, reads groups of four characters, accepts
  \<open>=\<close> padding only in the last group (as \<open>xx==\<close> or \<open>xxx=\<close>), and fails with
  \<open>CorruptInputError\<close> on anything else. The unused low bits of a padded group are not
  checked (the encoding is not strict).
\<close>

definition decode_last :: "char \<Rightarrow> char \<Rightarrow> char \<Rightarrow> char \<Rightarrow> go_error + string" where
  "decode_last a b c d =
     (case (b64_value a, b64_value b) of
        (Some d0, Some d1) \<Rightarrow>
          if c = CHR ''='' then
            (if d = CHR ''='' then Inr [octet (pack4 d0 d1 0 0) 16]
             else Inl CorruptInputError)
          else
            (case b64_value c of
               None \<Rightarrow> Inl CorruptInputError
             | Some d2 \<Rightarrow>
                 if d = CHR ''='' then
                   (let val = pack4 d0 d1 d2 0
                    in Inr [octet val 16, octet val 8])
                 else
                   (case b64_value d of
                      None \<Rightarrow> Inl CorruptInputError
                    | Some d3 \<Rightarrow>
                        (let val = pack4 d0 d1 d2 d3
                         in Inr [octet val 16, octet val 8, octet val 0])))
      | _ \<Rightarrow> Inl CorruptInputError)"

fun decode_groups :: "string \<Rightarrow> go_error + string" where
  "decode_groups [] = Inr []"
| "decode_groups (a # b # c # d # rest) =
     (if rest = [] then decode_last a b c d
      else
        (case (b64_value a, b64_value b, b64_value c, b64_value d) of
           (Some d0, Some d1, Some d2, Some d3) \<Rightarrow>
             (let val = pack4 d0 d1 d2 d3
              in case decode_groups rest of
                   Inl err \<Rightarrow> Inl err
                 | Inr bs \<Rightarrow> Inr (octet val 16 # octet val 8 # octet val 0 # bs))
         | _ \<Rightarrow> Inl CorruptInputError))"
| "decode_groups _ = Inl CorruptInputError"

definition base64_DecodeString :: "string \<Rightarrow> go_error + string" where
  "base64_DecodeString s =
     decode_groups (filter (\<lambda>c. c \<noteq> CHR 0x0A \<and> c \<noteq> CHR 0x0D) s)"

section \<open>The file system behind package os\<close>

text \<open>
  The storage the \<open>os\<close> calls act on: a tree of directories and regular files, held as
  an association list from the names on the way down from \<open>/\<close> (the root is \<open>[]\<close>) to
  the node found there. A node carries its modification time; a file carries its bytes.
  There are no symbolic links and no permissions. The one storage fault is a full device,
  which stops the writing of file data; every other failure of a call has its reason in
  the tree itself.
\<close>

datatype node = File nat string | Dir nat

type_synonym filesystem = "(string list \<times> node) list"

definition is_dir :: "filesystem \<Rightarrow> string list \<Rightarrow> bool" where
  "is_dir fs key = (case map_of fs key of Some (Dir m) \<Rightarrow> True | _ \<Rightarrow> False)"

text \<open>
  Path lookup goes element by element: each element is looked up in the directory reached
  so far, which must exist and be a directory; \<open>..\<close> goes to the parent.
\<close>

fun walk :: "filesystem \<Rightarrow> string list \<Rightarrow> string list \<Rightarrow> errno + string list" where
  "walk fs [] key = Inr key"
| "walk fs (e # es) key =
     (case map_of fs key of
        None \<Rightarrow> Inl ENOENT
      | Some (File m d) \<Rightarrow> Inl ENOTDIR
      | Some (Dir m) \<Rightarrow>
          if e = [] \<or> e = ''.'' then walk fs es key
          else if e = ''..'' then walk fs es (butlast key)
          else walk fs es (key @ [e]))"

text \<open>
  Where the lookup of a name starts: at the root for an absolute name, at the working
  directory otherwise. The empty name names nothing, and a name holding a NUL byte is
  refused before the system call is made.
\<close>

definition walk_start :: "os_env \<Rightarrow> filesystem \<Rightarrow> string \<Rightarrow> errno + string list" where
  "walk_start env fs name =
     (if name = [] then Inl ENOENT
      else if CHR 0x00 \<in> set name then Inl EINVAL
      else if filepath_IsAbs name then Inr []
      else (case getwd env of
              Inl err \<Rightarrow> Inl ENOENT
            | Inr wd \<Rightarrow> walk fs (strings_Split wd (CHR ''/'')) []))"

definition namei :: "os_env \<Rightarrow> filesystem \<Rightarrow> string \<Rightarrow> errno + string list" where
  "namei env fs name =
     (case walk_start env fs name of
        Inl e \<Rightarrow> Inl e
      | Inr start \<Rightarrow> walk fs (strings_Split name (CHR ''/'')) start)"

text \<open>\<open>os.FileInfo\<close>, as far as the provider reads it.\<close>

record FileStat =
  st_IsDir :: bool
  st_Size :: int
  st_ModTime :: nat

definition stat_of :: "os_env \<Rightarrow> node \<Rightarrow> FileStat" where
  "stat_of env n =
     (case n of
        File m d \<Rightarrow> \<lparr>st_IsDir = False, st_Size = int (length d), st_ModTime = m\<rparr>
      | Dir m \<Rightarrow> \<lparr>st_IsDir = True, st_Size = dir_size env, st_ModTime = m\<rparr>)"

definition os_Stat :: "os_env \<Rightarrow> filesystem \<Rightarrow> string \<Rightarrow> go_error + FileStat" where
  "os_Stat env fs name =
     (case namei env fs name of
        Inl e \<Rightarrow> Inl (PathError ''stat'' name e)
      | Inr key \<Rightarrow>
          (case map_of fs key of
             None \<Rightarrow> Inl (PathError ''stat'' name ENOENT)
           | Some n \<Rightarrow> Inr (stat_of env n)))"

definition os_IsNotExist :: "go_error \<Rightarrow> bool" where
  "os_IsNotExist err = (case err of PathError op name ENOENT \<Rightarrow> True | _ \<Rightarrow> False)"

definition os_ReadFile :: "os_env \<Rightarrow> filesystem \<Rightarrow> string \<Rightarrow> go_error + string" where
  "os_ReadFile env fs name =
     (case namei env fs name of
        Inl e \<Rightarrow> Inl (PathError ''open'' name e)
      | Inr key \<Rightarrow>
          (case map_of fs key of
             None \<Rightarrow> Inl (PathError ''open'' name ENOENT)
           | Some (Dir m) \<Rightarrow> Inl (PathError ''read'' name EISDIR)
           | Some (File m d) \<Rightarrow> Inr d))"

text \<open>
  A directory entry of \<open>os.ReadDir\<close>: its name and the node it names. \<open>ReadDir\<close> returns
  the entries sorted by file name.
\<close>

record DirEntry =
  de_Name :: string
  de_node :: node

definition children :: "filesystem \<Rightarrow> string list \<Rightarrow> DirEntry list" where
  "children fs key =
     map (\<lambda>(k, n). \<lparr>de_Name = last k, de_node = n\<rparr>)
       (filter (\<lambda>(k, n). k \<noteq> [] \<and> butlast k = key) fs)"

definition os_ReadDir :: "os_env \<Rightarrow> filesystem \<Rightarrow> string \<Rightarrow> go_error + DirEntry list" where
  "os_ReadDir env fs name =
     (case namei env fs name of
        Inl e \<Rightarrow> Inl (PathError ''open'' name e)
      | Inr key \<Rightarrow>
          (case map_of fs key of
             None \<Rightarrow> Inl (PathError ''open'' name ENOENT)
           | Some (File m d) \<Rightarrow> Inl (PathError ''readdirent'' name ENOTDIR)
           | Some (Dir m) \<Rightarrow> Inr (sort_key de_Name (children fs key))))"

definition DirEntry_IsDir :: "DirEntry \<Rightarrow> bool" where
  "DirEntry_IsDir entry = (case de_node entry of Dir m \<Rightarrow> True | File m d \<Rightarrow> False)"

definition DirEntry_Info :: "os_env \<Rightarrow> DirEntry \<Rightarrow> go_error + FileStat" where
  "DirEntry_Info env entry = Inr (stat_of env (de_node entry))"

text \<open>Adding or removing an entry stamps the directory that holds it.\<close>

definition touch_parent :: "os_env \<Rightarrow> string list \<Rightarrow> filesystem \<Rightarrow> filesystem" where
  "touch_parent env key fs = AList.update (butlast key) (Dir (clock env)) fs"

definition parent_is_dir :: "filesystem \<Rightarrow> string list \<Rightarrow> bool" where
  "parent_is_dir fs key = (key \<noteq> [] \<and> is_dir fs (butlast key))"

text \<open>
  \<open>os.WriteFile\<close> is \<open>OpenFile(name, O_WRONLY|O_CREATE|O_TRUNC, perm)\<close>, then
  \<open>f.Write(data)\<close>, then \<open>f.Close()\<close>. Opening empties an existing file and creates a
  missing one, empty, in its (existing) directory. Writing fails with \<open>ENOSPC\<close> when the
  storage accepts fewer bytes than the data has, and the file keeps the bytes accepted; so a
  failed \<open>WriteFile\<close> can leave the file created or cut short.
\<close>

definition open_truncate ::
  "os_env \<Rightarrow> filesystem \<Rightarrow> string \<Rightarrow> (go_error + string list) \<times> filesystem" where
  "open_truncate env fs name =
     (case namei env fs name of
        Inl e \<Rightarrow> (Inl (PathError ''open'' name e), fs)
      | Inr key \<Rightarrow>
          (case map_of fs key of
             Some (Dir m) \<Rightarrow> (Inl (PathError ''open'' name EISDIR), fs)
           | Some (File m d) \<Rightarrow> (Inr key, AList.update key (File (clock env) []) fs)
           | None \<Rightarrow>
               if parent_is_dir fs key
               then (Inr key, AList.update key (File (clock env) []) (touch_parent env key fs))
               else (Inl (PathError ''open'' name ENOENT), fs)))"

definition file_Write ::
  "os_env \<Rightarrow> filesystem \<Rightarrow> string \<Rightarrow> string list \<Rightarrow> string
     \<Rightarrow> go_error option \<times> filesystem" where
  "file_Write env fs name key data =
     (case disk_free env of
        None \<Rightarrow> (None, AList.update key (File (clock env) data) fs)
      | Some n \<Rightarrow>
          if n < length data
          then (Some (PathError ''write'' name ENOSPC),
                AList.update key (File (clock env) (take n data)) fs)
          else (None, AList.update key (File (clock env) data) fs))"

definition os_WriteFile ::
  "os_env \<Rightarrow> filesystem \<Rightarrow> string \<Rightarrow> string \<Rightarrow> go_error option \<times> filesystem" where
  "os_WriteFile env fs name data =
     (case open_truncate env fs name of
        (Inl err, fs1) \<Rightarrow> (Some err, fs1)
      | (Inr key, fs1) \<Rightarrow> file_Write env fs1 name key data)"

text \<open>
  \<open>os.MkdirAll\<close> creates the directory and every missing parent on the way to it, and
  fails where a regular file is in the way. What it has created before failing stays.
\<close>

fun mkdir_walk ::
  "os_env \<Rightarrow> string list \<Rightarrow> string list \<Rightarrow> filesystem \<Rightarrow> errno option \<times> filesystem" where
  "mkdir_walk env [] key fs =
     (case map_of fs key of
        None \<Rightarrow> (Some ENOENT, fs)
      | Some (File m d) \<Rightarrow> (Some ENOTDIR, fs)
      | Some (Dir m) \<Rightarrow> (None, fs))"
| "mkdir_walk env (e # es) key fs =
     (case map_of fs key of
        None \<Rightarrow> (Some ENOENT, fs)
      | Some (File m d) \<Rightarrow> (Some ENOTDIR, fs)
      | Some (Dir m) \<Rightarrow>
          if e = [] \<or> e = ''.'' then mkdir_walk env es key fs
          else if e = ''..'' then mkdir_walk env es (butlast key) fs
          else
            (case map_of fs (key @ [e]) of
               None \<Rightarrow>
                 mkdir_walk env es (key @ [e])
                   (AList.update (key @ [e]) (Dir (clock env)) (touch_parent env (key @ [e]) fs))
             | Some n \<Rightarrow> mkdir_walk env es (key @ [e]) fs))"

definition os_MkdirAll :: "os_env \<Rightarrow> filesystem \<Rightarrow> string \<Rightarrow> go_error option \<times> filesystem" where
  "os_MkdirAll env fs name =
     (case walk_start env fs name of
        Inl e \<Rightarrow> (Some (PathError ''mkdir'' name e), fs)
      | Inr start \<Rightarrow>
          (case mkdir_walk env (strings_Split name (CHR ''/'')) start fs of
             (None, fs') \<Rightarrow> (None, fs')
           | (Some e, fs') \<Rightarrow> (Some (PathError ''mkdir'' name e), fs')))"



text \<open>
  \<open>os.Remove\<close> removes a file or an empty directory. The last element of the name
  decides what \<open>rmdir\<close> says about \<open>.\<close> and \<open>..\<close>.
\<close>

definition last_element :: "string \<Rightarrow> string" where
  "last_element name =
     (case filter (\<lambda>e. e \<noteq> []) (strings_Split name (CHR ''/'')) of
        [] \<Rightarrow> []
      | e # es \<Rightarrow> last (e # es))"

definition remove_key :: "os_env \<Rightarrow> string list \<Rightarrow> filesystem \<Rightarrow> filesystem" where
  "remove_key env key fs = AList.delete key (touch_parent env key fs)"

definition os_Remove :: "os_env \<Rightarrow> filesystem \<Rightarrow> string \<Rightarrow> go_error option \<times> filesystem" where
  "os_Remove env fs name =
     (case namei env fs name of
        Inl e \<Rightarrow> (Some (PathError ''remove'' name e), fs)
      | Inr key \<Rightarrow>
          (case map_of fs key of
             None \<Rightarrow> (Some (PathError ''remove'' name ENOENT), fs)
           | Some (File m d) \<Rightarrow> (None, remove_key env key fs)
           | Some (Dir m) \<Rightarrow>
               if last_element name = ''.'' then (Some (PathError ''remove'' name EINVAL), fs)
               else if last_element name = ''..'' \<or> children fs key \<noteq> []
               then (Some (PathError ''remove'' name ENOTEMPTY), fs)
               else if key = [] then (Some (PathError ''remove'' name EBUSY), fs)
               else (None, remove_key env key fs)))"

text \<open>
  \<open>os.RemoveAll\<close> removes the named node and everything below it, and reports no error
  for a name that does not exist. It refuses a name ending in \<open>.\<close>; the root directory
  itself cannot be removed, although what it holds is.
\<close>

definition endsWithDot :: "string \<Rightarrow> bool" where
  "endsWithDot name =
     (name = ''.'' \<or> (length name \<ge> 2 \<and> take 2 (rev name) = ''./''))"

definition below :: "string list \<Rightarrow> string list \<Rightarrow> bool" where
  "below key k = (length key < length k \<and> take (length key) k = key)"

definition os_RemoveAll :: "os_env \<Rightarrow> filesystem \<Rightarrow> string \<Rightarrow> go_error option \<times> filesystem" where
  "os_RemoveAll env fs name =
     (if name = [] then (None, fs)
      else if endsWithDot name then (Some (PathError ''RemoveAll'' name EINVAL), fs)
      else
        (case namei env fs name of
           Inl e \<Rightarrow> (if e = ENOENT then (None, fs) else (Some (PathError ''unlinkat'' name e), fs))
         | Inr key \<Rightarrow>
             (case map_of fs key of
                None \<Rightarrow> (None, fs)
              | Some n \<Rightarrow>
                  let emptied = filter (\<lambda>(k, n). \<not> below key k) fs
                  in if key = [] then (Some (PathError ''unlinkat'' name EBUSY), emptied)
                     else (None, remove_key env key emptied))))"

section \<open>Protocol types (mcp/types.go)\<close>

text \<open>
  A decoded JSON value held in an \<open>interface{}\<close>: the provider only asks whether it is
  a \<open>string\<close> or a \<open>bool\<close>; every other dynamic type (nil, float64, slice, map) is
  \<open>AOther\<close>.
\<close>

datatype any = AString string | ABool bool | AOther nat

record CallToolParams =
  Arguments :: "string \<rightharpoonup> any"

record CallToolRequest =
  ToolID :: string
  tq_RequestID :: string
  tq_Params :: CallToolParams

record LoadResourceRequest =
  ResourceID :: string
  rq_RequestID :: string
  rq_Params :: "string \<rightharpoonup> any"

record ErrorInfo =
  Code :: string
  Message :: string

record ErrorResponse =
  er_Error :: string
  er_Message :: string

record FileInfo =
  fi_Name :: string
  fi_Path :: string
  fi_Size :: int
  fi_IsDir :: bool
  fi_ModTime :: nat

record FileContent =
  fc_Path :: string
  fc_Content :: string
  fc_IsText :: bool

record DirectoryContent =
  dc_Path :: string
  dc_Files :: "FileInfo list"

text \<open>
  The \<open>map[string]interface{}\<close> put into \<open>Result\<close> or \<open>Content\<close>:
  \<open>{"type": "text", "text": ...}\<close> or \<open>{"type": "json", "json": ...}\<close>, the latter holding
  a \<open>FileContent\<close> or a \<open>DirectoryContent\<close>.
\<close>

datatype json_data = FileContentJSON FileContent | DirectoryContentJSON DirectoryContent

datatype payload = TextPayload string | JSONPayload json_data

record CallToolResult =
  tr_RequestID :: string
  tr_Status :: string
  tr_Result :: "payload option"
  tr_Error :: "ErrorInfo option"

record LoadResourceResult =
  rr_RequestID :: string
  rr_Status :: string
  rr_Content :: "payload option"
  rr_Error :: "ErrorInfo option"

definition ParseID :: "string \<Rightarrow> string list" where
  "ParseID ident = strings_Split ident (CHR ''.'')"

definition NewToolResultText :: "string \<Rightarrow> CallToolResult" where
  "NewToolResultText text =
     \<lparr>tr_RequestID = [], tr_Status = ''success'', tr_Result = Some (TextPayload text),
      tr_Error = None\<rparr>"

definition NewToolResultJSON :: "json_data \<Rightarrow> CallToolResult" where
  "NewToolResultJSON data =
     \<lparr>tr_RequestID = [], tr_Status = ''success'', tr_Result = Some (JSONPayload data),
      tr_Error = None\<rparr>"

definition NewToolResultError :: "string \<Rightarrow> CallToolResult" where
  "NewToolResultError message =
     \<lparr>tr_RequestID = [], tr_Status = ''error'', tr_Result = None,
      tr_Error = Some \<lparr>Code = ''execution_error'', Message = message\<rparr>\<rparr>"

definition NewResourceResultText :: "string \<Rightarrow> LoadResourceResult" where
  "NewResourceResultText text =
     \<lparr>rr_RequestID = [], rr_Status = ''success'', rr_Content = Some (TextPayload text),
      rr_Error = None\<rparr>"

definition NewResourceResultJSON :: "json_data \<Rightarrow> LoadResourceResult" where
  "NewResourceResultJSON data =
     \<lparr>rr_RequestID = [], rr_Status = ''success'', rr_Content = Some (JSONPayload data),
      rr_Error = None\<rparr>"

definition NewResourceResultError :: "string \<Rightarrow> LoadResourceResult" where
  "NewResourceResultError message =
     \<lparr>rr_RequestID = [], rr_Status = ''error'', rr_Content = None,
      rr_Error = Some \<lparr>Code = ''resource_error'', Message = message\<rparr>\<rparr>"

section \<open>The filesystem provider: tools and resources\<close>

text \<open>
  Every handler returns its result with a nil \<open>error\<close>, so a handler is modelled by the
  result alone; \<open>CallTool\<close> and \<open>LoadResource\<close> below pair it with the nil error.
  A handler that only reads takes the file system; one that writes also returns it.
  \<open>tool_error req msg\<close> is the recurring
  \<open>result := NewToolResultError(msg); result.RequestID = request.RequestID\<close>.
\<close>

definition tool_error :: "CallToolRequest \<Rightarrow> string \<Rightarrow> CallToolResult" where
  "tool_error request message = (NewToolResultError message)\<lparr>tr_RequestID := tq_RequestID request\<rparr>"

definition resource_error :: "LoadResourceRequest \<Rightarrow> string \<Rightarrow> LoadResourceResult" where
  "resource_error request message =
     (NewResourceResultError message)\<lparr>rr_RequestID := rq_RequestID request\<rparr>"

text \<open>The loop over the entries of a directory; an entry whose \<open>Info()\<close> fails is skipped.\<close>

fun entry_infos :: "os_env \<Rightarrow> string \<Rightarrow> DirEntry list \<Rightarrow> FileInfo list" where
  "entry_infos env pathParam [] = []"
| "entry_infos env pathParam (entry # entries) =
     (case DirEntry_Info env entry of
        Inl err \<Rightarrow> entry_infos env pathParam entries
      | Inr entryInfo \<Rightarrow>
          \<lparr>fi_Name = de_Name entry,
           fi_Path = filepath_Join pathParam (de_Name entry),
           fi_Size = st_Size entryInfo,
           fi_IsDir = DirEntry_IsDir entry,
           fi_ModTime = st_ModTime entryInfo\<rparr> # entry_infos env pathParam entries)"

definition listDirectory ::
  "FilesystemProvider \<Rightarrow> os_env \<Rightarrow> filesystem \<Rightarrow> CallToolRequest \<Rightarrow> CallToolResult" where
  "listDirectory p env fs request =
     (case Arguments (tq_Params request) ''path'' of
        Some (AString pathParam) \<Rightarrow>
          (case resolvePath p env pathParam of
             Inl err \<Rightarrow> tool_error request (''Invalid path: '' @ Error env err)
           | Inr fullPath \<Rightarrow>
               (case os_Stat env fs fullPath of
                  Inl err \<Rightarrow>
                    if os_IsNotExist err
                    then tool_error request (''Directory not found: '' @ pathParam)
                    else tool_error request (''Error accessing directory: '' @ Error env err)
                | Inr info \<Rightarrow>
                    if \<not> st_IsDir info
                    then tool_error request (''Path is not a directory: '' @ pathParam)
                    else
                      (case os_ReadDir env fs fullPath of
                         Inl err \<Rightarrow>
                           tool_error request (''Error reading directory: '' @ Error env err)
                       | Inr entries \<Rightarrow>
                           (NewToolResultJSON
                              (DirectoryContentJSON
                                 \<lparr>dc_Path = pathParam,
                                  dc_Files = entry_infos env pathParam entries\<rparr>))
                           \<lparr>tr_RequestID := tq_RequestID request\<rparr>)))
      | _ \<Rightarrow> tool_error request ''Path parameter is required and must be a string'')"

text \<open>The \<open>encoding\<close> argument: \<open>text\<close> unless a string is given.\<close>

definition encoding_of :: "(string \<rightharpoonup> any) \<Rightarrow> string" where
  "encoding_of args = (case args ''encoding'' of Some (AString encodingParam) \<Rightarrow> encodingParam | _ \<Rightarrow> ''text'')"

definition file_content :: "string \<Rightarrow> string \<Rightarrow> string \<Rightarrow> FileContent" where
  "file_content encoding pathParam data =
     (if encoding = ''base64''
      then \<lparr>fc_Path = pathParam, fc_Content = base64_EncodeToString data, fc_IsText = False\<rparr>
      else \<lparr>fc_Path = pathParam, fc_Content = data, fc_IsText = True\<rparr>)"

definition readFile ::
  "FilesystemProvider \<Rightarrow> os_env \<Rightarrow> filesystem \<Rightarrow> CallToolRequest \<Rightarrow> CallToolResult" where
  "readFile p env fs request =
     (case Arguments (tq_Params request) ''path'' of
        Some (AString pathParam) \<Rightarrow>
          let encoding = encoding_of (Arguments (tq_Params request)) in
          (case resolvePath p env pathParam of
             Inl err \<Rightarrow> tool_error request (''Invalid path: '' @ Error env err)
           | Inr fullPath \<Rightarrow>
               (case os_Stat env fs fullPath of
                  Inl err \<Rightarrow>
                    if os_IsNotExist err
                    then tool_error request (''File not found: '' @ pathParam)
                    else tool_error request (''Error accessing file: '' @ Error env err)
                | Inr info \<Rightarrow>
                    if st_IsDir info
                    then tool_error request (''Path is a directory, not a file: '' @ pathParam)
                    else
                      (case os_ReadFile env fs fullPath of
                         Inl err \<Rightarrow> tool_error request (''Error reading file: '' @ Error env err)
                       | Inr data \<Rightarrow>
                           (NewToolResultJSON (FileContentJSON (file_content encoding pathParam data)))
                           \<lparr>tr_RequestID := tq_RequestID request\<rparr>)))
      | _ \<Rightarrow> tool_error request ''Path parameter is required and must be a string'')"

definition writeFile ::
  "FilesystemProvider \<Rightarrow> os_env \<Rightarrow> filesystem \<Rightarrow> CallToolRequest
     \<Rightarrow> CallToolResult \<times> filesystem" where
  "writeFile p env fs request =
     (case Arguments (tq_Params request) ''path'' of
        Some (AString pathParam) \<Rightarrow>
          (case Arguments (tq_Params request) ''content'' of
             Some (AString contentParam) \<Rightarrow>
               let encoding = encoding_of (Arguments (tq_Params request)) in
               (case resolvePath p env pathParam of
                  Inl err \<Rightarrow> (tool_error request (''Invalid path: '' @ Error env err), fs)
                | Inr fullPath \<Rightarrow>
                    let parentDir = filepath_Dir fullPath in
                    (case os_MkdirAll env fs parentDir of
                       (Some err, fs1) \<Rightarrow>
                         (tool_error request (''Error creating directory: '' @ Error env err), fs1)
                     | (None, fs1) \<Rightarrow>
                         (case (if encoding = ''base64'' then base64_DecodeString contentParam
                                else Inr contentParam) of
                            Inl err \<Rightarrow>
                              (tool_error request
                                 (''Error decoding base64 content: '' @ Error env err), fs1)
                          | Inr data \<Rightarrow>
                              (case os_WriteFile env fs1 fullPath data of
                                 (Some err, fs2) \<Rightarrow>
                                   (tool_error request
                                      (''Error writing file: '' @ Error env err), fs2)
                               | (None, fs2) \<Rightarrow>
                                   ((NewToolResultText
                                       (''File written successfully: '' @ pathParam))
                                    \<lparr>tr_RequestID := tq_RequestID request\<rparr>, fs2)))))
           | _ \<Rightarrow> (tool_error request ''Content parameter is required and must be a string'', fs))
      | _ \<Rightarrow> (tool_error request ''Path parameter is required and must be a string'', fs))"

definition recursive_of :: "(string \<rightharpoonup> any) \<Rightarrow> bool" where
  "recursive_of args = (case args ''recursive'' of Some (ABool recursiveParam) \<Rightarrow> recursiveParam | _ \<Rightarrow> False)"

definition deleteFile ::
  "FilesystemProvider \<Rightarrow> os_env \<Rightarrow> filesystem \<Rightarrow> CallToolRequest
     \<Rightarrow> CallToolResult \<times> filesystem" where
  "deleteFile p env fs request =
     (case Arguments (tq_Params request) ''path'' of
        Some (AString pathParam) \<Rightarrow>
          let recursive = recursive_of (Arguments (tq_Params request));
              success = (NewToolResultText (''Successfully deleted: '' @ pathParam))
                          \<lparr>tr_RequestID := tq_RequestID request\<rparr>
          in
          (case resolvePath p env pathParam of
             Inl err \<Rightarrow> (tool_error request (''Invalid path: '' @ Error env err), fs)
           | Inr fullPath \<Rightarrow>
               (case os_Stat env fs fullPath of
                  Inl err \<Rightarrow>
                    if os_IsNotExist err
                    then (tool_error request (''File or directory not found: '' @ pathParam), fs)
                    else (tool_error request (''Error accessing path: '' @ Error env err), fs)
                | Inr info \<Rightarrow>
                    if st_IsDir info then
                      (if recursive then
                         (case os_RemoveAll env fs fullPath of
                            (Some err, fs1) \<Rightarrow>
                              (tool_error request
                                 (''Error deleting directory: '' @ Error env err), fs1)
                          | (None, fs1) \<Rightarrow> (success, fs1))
                       else
                         (case os_ReadDir env fs fullPath of
                            Inl err \<Rightarrow>
                              (tool_error request
                                 (''Error reading directory: '' @ Error env err), fs)
                          | Inr entries \<Rightarrow>
                              if length entries > 0
                              then (tool_error request
                                      (''Directory is not empty: '' @ pathParam @
                                       ''. Use recursive=true to delete non-empty directories''),
                                    fs)
                              else
                                (case os_Remove env fs fullPath of
                                   (Some err, fs1) \<Rightarrow>
                                     (tool_error request
                                        (''Error deleting directory: '' @ Error env err), fs1)
                                 | (None, fs1) \<Rightarrow> (success, fs1))))
                    else
                      (case os_Remove env fs fullPath of
                         (Some err, fs1) \<Rightarrow>
                           (tool_error request (''Error deleting file: '' @ Error env err), fs1)
                       | (None, fs1) \<Rightarrow> (success, fs1))))
      | _ \<Rightarrow> (tool_error request ''Path parameter is required and must be a string'', fs))"

definition loadFile ::
  "FilesystemProvider \<Rightarrow> os_env \<Rightarrow> filesystem \<Rightarrow> LoadResourceRequest
     \<Rightarrow> LoadResourceResult" where
  "loadFile p env fs request =
     (case rq_Params request ''path'' of
        Some (AString pathParam) \<Rightarrow>
          let encoding = encoding_of (rq_Params request) in
          (case resolvePath p env pathParam of
             Inl err \<Rightarrow> resource_error request (''Invalid path: '' @ Error env err)
           | Inr fullPath \<Rightarrow>
               (case os_Stat env fs fullPath of
                  Inl err \<Rightarrow>
                    if os_IsNotExist err
                    then resource_error request (''File not found: '' @ pathParam)
                    else resource_error request (''Error accessing file: '' @ Error env err)
                | Inr info \<Rightarrow>
                    if st_IsDir info
                    then resource_error request (''Path is a directory, not a file: '' @ pathParam)
                    else
                      (case os_ReadFile env fs fullPath of
                         Inl err \<Rightarrow>
                           resource_error request (''Error reading file: '' @ Error env err)
                       | Inr data \<Rightarrow>
                           (NewResourceResultJSON
                              (FileContentJSON (file_content encoding pathParam data)))
                           \<lparr>rr_RequestID := rq_RequestID request\<rparr>)))
      | _ \<Rightarrow> resource_error request ''Path parameter is required and must be a string'')"

definition loadDirectory ::
  "FilesystemProvider \<Rightarrow> os_env \<Rightarrow> filesystem \<Rightarrow> LoadResourceRequest
     \<Rightarrow> LoadResourceResult" where
  "loadDirectory p env fs request =
     (case rq_Params request ''path'' of
        Some (AString pathParam) \<Rightarrow>
          (case resolvePath p env pathParam of
             Inl err \<Rightarrow> resource_error request (''Invalid path: '' @ Error env err)
           | Inr fullPath \<Rightarrow>
               (case os_Stat env fs fullPath of
                  Inl err \<Rightarrow>
                    if os_IsNotExist err
                    then resource_error request (''Directory not found: '' @ pathParam)
                    else resource_error request (''Error accessing directory: '' @ Error env err)
                | Inr info \<Rightarrow>
                    if \<not> st_IsDir info
                    then resource_error request (''Path is not a directory: '' @ pathParam)
                    else
                      (case os_ReadDir env fs fullPath of
                         Inl err \<Rightarrow>
                           resource_error request (''Error reading directory: '' @ Error env err)
                       | Inr entries \<Rightarrow>
                           (NewResourceResultJSON
                              (DirectoryContentJSON
                                 \<lparr>dc_Path = pathParam,
                                  dc_Files = entry_infos env pathParam entries\<rparr>))
                           \<lparr>rr_RequestID := rq_RequestID request\<rparr>)))
      | _ \<Rightarrow> resource_error request ''Path parameter is required and must be a string'')"

text \<open>
  \<open>CallTool\<close> and \<open>LoadResource\<close> return \<open>(result, error)\<close>; the error is
  \<open>None\<close> for Go's nil.
\<close>

definition FilesystemProvider_GetName :: "FilesystemProvider \<Rightarrow> string" where
  "FilesystemProvider_GetName p = ''filesystem''"

definition FilesystemProvider_CallTool ::
  "FilesystemProvider \<Rightarrow> os_env \<Rightarrow> string \<Rightarrow> CallToolRequest \<Rightarrow> filesystem
     \<Rightarrow> (CallToolResult \<times> go_error option) \<times> filesystem" where
  "FilesystemProvider_CallTool p env toolName request fs =
     (if toolName = ''list'' then ((listDirectory p env fs request, None), fs)
      else if toolName = ''read'' then ((readFile p env fs request, None), fs)
      else if toolName = ''write'' then
        (case writeFile p env fs request of (result, fs') \<Rightarrow> ((result, None), fs'))
      else if toolName = ''delete'' then
        (case deleteFile p env fs request of (result, fs') \<Rightarrow> ((result, None), fs'))
      else
        ((\<lparr>tr_RequestID = tq_RequestID request, tr_Status = ''error'', tr_Result = None,
           tr_Error = Some \<lparr>Code = ''unknown_tool'', Message = ''Unknown tool: '' @ toolName\<rparr>\<rparr>,
          None), fs))"

definition FilesystemProvider_LoadResource ::
  "FilesystemProvider \<Rightarrow> os_env \<Rightarrow> string \<Rightarrow> LoadResourceRequest \<Rightarrow> filesystem
     \<Rightarrow> (LoadResourceResult \<times> go_error option) \<times> filesystem" where
  "FilesystemProvider_LoadResource p env resourceName request fs =
     (if resourceName = ''file'' then ((loadFile p env fs request, None), fs)
      else if resourceName = ''directory'' then ((loadDirectory p env fs request, None), fs)
      else
        ((\<lparr>rr_RequestID = rq_RequestID request, rr_Status = ''error'', rr_Content = None,
           rr_Error = Some \<lparr>Code = ''unknown_resource'',
                            Message = ''Unknown resource: '' @ resourceName\<rparr>\<rparr>,
          None), fs))"

text \<open>
  The resource envelope that carries what a tool envelope carries: same request id, status,
  payload and error message, under the resource error code.
\<close>

definition as_resource_result :: "CallToolResult \<Rightarrow> LoadResourceResult" where
  "as_resource_result t =
     \<lparr>rr_RequestID = tr_RequestID t, rr_Status = tr_Status t, rr_Content = tr_Result t,
      rr_Error = map_option (Code_update (\<lambda>c. ''resource_error'')) (tr_Error t)\<rparr>"

text \<open>
  Comparing the file system before and after a call: every directory is still a directory;
  and, for one place \<open>k\<close>, a directory stamped by this call stands there where there was
  none or a directory before (it was created, or an entry was added to it).
\<close>

definition keeps_dirs :: "filesystem \<Rightarrow> filesystem \<Rightarrow> bool" where
  "keeps_dirs fs fs' = (\<forall>k. is_dir fs k \<longrightarrow> is_dir fs' k)"




section \<open>The server (server/server.go)\<close>

text \<open>
  The \<open>Provider\<close> interface: an implementation acts on some state \<open>'w\<close> of its own and
  returns Go's pair \<open>(result, error)\<close>.
\<close>

record 'w Provider =
  GetName :: string
  CallTool :: "string \<Rightarrow> CallToolRequest \<Rightarrow> 'w \<Rightarrow> (CallToolResult \<times> go_error option) \<times> 'w"
  LoadResource ::
    "string \<Rightarrow> LoadResourceRequest \<Rightarrow> 'w \<Rightarrow> (LoadResourceResult \<times> go_error option) \<times> 'w"

definition filesystem_Provider :: "FilesystemProvider \<Rightarrow> os_env \<Rightarrow> filesystem Provider" where
  "filesystem_Provider p env =
     \<lparr>GetName = FilesystemProvider_GetName p,
      CallTool = FilesystemProvider_CallTool p env,
      LoadResource = FilesystemProvider_LoadResource p env\<rparr>"

record 'w MCPServer =
  Name :: string
  Version :: string
  Description :: string
  Providers :: "string \<rightharpoonup> 'w Provider"

definition NewMCPServer :: "string \<Rightarrow> string \<Rightarrow> string \<Rightarrow> 'w MCPServer" where
  "NewMCPServer name version description =
     \<lparr>Name = name, Version = version, Description = description, Providers = Map.empty\<rparr>"

definition RegisterProvider :: "'w MCPServer \<Rightarrow> 'w Provider \<Rightarrow> 'w MCPServer" where
  "RegisterProvider s provider = s\<lparr>Providers := (Providers s)(GetName provider \<mapsto> provider)\<rparr>"

text \<open>What a handler sends with \<open>c.JSON(status, body)\<close>.\<close>

datatype body =
    ErrorBody ErrorResponse
  | ToolBody CallToolResult
  | ResourceBody LoadResourceResult

type_synonym http_response = "nat \<times> body"

definition parseToolID :: "string \<Rightarrow> go_error + string \<times> string" where
  "parseToolID toolID =
     (case ParseID toolID of
        [providerName, toolName] \<Rightarrow> Inr (providerName, toolName)
      | _ \<Rightarrow> Inl (HTTPError 400 ''Invalid tool ID format. Expected: provider.tool''))"

definition parseResourceID :: "string \<Rightarrow> go_error + string \<times> string" where
  "parseResourceID resourceID =
     (case ParseID resourceID of
        [providerName, resourceName] \<Rightarrow> Inr (providerName, resourceName)
      | _ \<Rightarrow> Inl (HTTPError 400 ''Invalid resource ID format. Expected: provider.resource''))"

text \<open>
  The handlers take the outcome of \<open>c.Bind(&request)\<close>: \<open>None\<close> when the body does
  not parse.
\<close>

definition handleCallTool ::
  "os_env \<Rightarrow> 'w MCPServer \<Rightarrow> CallToolRequest option \<Rightarrow> 'w \<Rightarrow> http_response \<times> 'w" where
  "handleCallTool env s bound w =
     (case bound of
        None \<Rightarrow>
          ((400, ErrorBody \<lparr>er_Error = ''invalid_request'',
                            er_Message = ''Failed to parse request body''\<rparr>), w)
      | Some request \<Rightarrow>
          (case parseToolID (ToolID request) of
             Inl err \<Rightarrow>
               ((400, ErrorBody \<lparr>er_Error = ''invalid_tool_id'', er_Message = Error env err\<rparr>), w)
           | Inr (providerName, toolName) \<Rightarrow>
               (case Providers s providerName of
                  None \<Rightarrow>
                    ((404, ErrorBody \<lparr>er_Error = ''provider_not_found'',
                                      er_Message = ''Provider not found: '' @ providerName\<rparr>), w)
                | Some provider \<Rightarrow>
                    (case CallTool provider toolName request w of
                       ((result, Some err), w') \<Rightarrow>
                         ((500, ErrorBody \<lparr>er_Error = ''tool_execution_error'',
                                           er_Message = Error env err\<rparr>), w')
                     | ((result, None), w') \<Rightarrow>
                         ((200, ToolBody
                                  (if tr_RequestID result = []
                                   then result\<lparr>tr_RequestID := tq_RequestID request\<rparr>
                                   else result)), w')))))"

definition handleLoadResource ::
  "os_env \<Rightarrow> 'w MCPServer \<Rightarrow> LoadResourceRequest option \<Rightarrow> 'w \<Rightarrow> http_response \<times> 'w" where
  "handleLoadResource env s bound w =
     (case bound of
        None \<Rightarrow>
          ((400, ErrorBody \<lparr>er_Error = ''invalid_request'',
                            er_Message = ''Failed to parse request body''\<rparr>), w)
      | Some request \<Rightarrow>
          (case parseResourceID (ResourceID request) of
             Inl err \<Rightarrow>
               ((400, ErrorBody \<lparr>er_Error = ''invalid_resource_id'',
                                 er_Message = Error env err\<rparr>), w)
           | Inr (providerName, resourceName) \<Rightarrow>
               (case Providers s providerName of
                  None \<Rightarrow>
                    ((404, ErrorBody \<lparr>er_Error = ''provider_not_found'',
                                      er_Message = ''Provider not found: '' @ providerName\<rparr>), w)
                | Some provider \<Rightarrow>
                    (case LoadResource provider resourceName request w of
                       ((result, Some err), w') \<Rightarrow>
                         ((500, ErrorBody \<lparr>er_Error = ''resource_load_error'',
                                           er_Message = Error env err\<rparr>), w')
                     | ((result, None), w') \<Rightarrow>
                         ((200, ResourceBody
                                  (if rr_RequestID result = []
                                   then result\<lparr>rr_RequestID := rq_RequestID request\<rparr>
                                   else result)), w')))))"

section \<open>A deployment used in the examples\<close>

text \<open>
  The server of \<open>main.go\<close> with its one provider, a process whose working directory is
  \<open>/sandbox\<close> (also one whose storage accepts a single byte more, and one whose working
  directory cannot be determined), and a file system holding that directory only.
\<close>

definition plain_error_text :: "go_error \<Rightarrow> string" where
  "plain_error_text e =
     (case e of
        ErrorString m \<Rightarrow> m
      | PathError op name no \<Rightarrow> op @ '' '' @ name
      | GetwdError \<Rightarrow> ''getwd''
      | CorruptInputError \<Rightarrow> ''illegal base64 data''
      | HTTPError c m \<Rightarrow> m)"

definition sandbox_env :: os_env where
  "sandbox_env =
     \<lparr>getwd = Inr ''/sandbox'', clock = 7, dir_size = 4096, disk_free = None,
      lib_error_text = plain_error_text\<rparr>"


definition lost_env :: os_env where
  "lost_env =
     \<lparr>getwd = Inl GetwdError, clock = 7, dir_size = 4096, disk_free = None,
      lib_error_text = plain_error_text\<rparr>"

definition sandbox_fs :: filesystem where
  "sandbox_fs = [([], Dir 0), ([''sandbox''], Dir 0)]"

definition notes_fs :: filesystem where
  "notes_fs =
     [([], Dir 0), ([''sandbox''], Dir 7), ([''sandbox'', ''notes''], Dir 7),
      ([''sandbox'', ''notes'', ''a.txt''], File 7 ''hi'')]"

definition main_server :: "filesystem MCPServer" where
  "main_server =
     RegisterProvider
       (NewMCPServer ''Filesystem MCP Server'' ''1.0.0'' ''A Model Context Protocol server'')
       (filesystem_Provider NewFilesystemProvider sandbox_env)"

definition tool_request :: "string \<Rightarrow> (string \<times> any) list \<Rightarrow> CallToolRequest" where
  "tool_request tool args =
     \<lparr>ToolID = tool, tq_RequestID = ''req-1'', tq_Params = \<lparr>Arguments = map_of args\<rparr>\<rparr>"

definition resource_request :: "string \<Rightarrow> (string \<times> any) list \<Rightarrow> LoadResourceRequest" where
  "resource_request resource args =
     \<lparr>ResourceID = resource, rq_RequestID = ''req-1'', rq_Params = map_of args\<rparr>"

section \<open>Properties of splitting and cleaning\<close>

text \<open>The cases of Go's own table for \<open>Clean\<close>, and the library calls around it.\<close>

lemma Clean_examples:
  "filepath_Clean [] = ''.''"
  "filepath_Clean ''abc'' = ''abc''"
  "filepath_Clean ''abc/def'' = ''abc/def''"
  "filepath_Clean ''.'' = ''.''"
  "filepath_Clean ''..'' = ''..''"
  "filepath_Clean ''../..'' = ''../..''"
  "filepath_Clean ''../../abc'' = ''../../abc''"
  "filepath_Clean ''/abc'' = ''/abc''"
  "filepath_Clean ''/'' = ''/''"
  "filepath_Clean ''abc/'' = ''abc''"
  "filepath_Clean ''a/b/c/'' = ''a/b/c''"
  "filepath_Clean ''./'' = ''.''"
  "filepath_Clean ''../'' = ''..''"
  "filepath_Clean ''/abc/'' = ''/abc''"
  "filepath_Clean ''abc//def//ghi'' = ''abc/def/ghi''"
  "filepath_Clean ''//abc'' = ''/abc''"
  "filepath_Clean ''//abc//'' = ''/abc''"
  "filepath_Clean ''abc/./def'' = ''abc/def''"
  "filepath_Clean ''/./abc/def'' = ''/abc/def''"
  "filepath_Clean ''abc/.'' = ''abc''"
  "filepath_Clean ''abc/def/ghi/../jkl'' = ''abc/def/jkl''"
  "filepath_Clean ''abc/def/../ghi/../jkl'' = ''abc/jkl''"
  "filepath_Clean ''abc/def/..'' = ''abc''"
  "filepath_Clean ''abc/def/../..'' = ''.''"
  "filepath_Clean ''/abc/def/../..'' = ''/''"
  "filepath_Clean ''abc/def/../../..'' = ''..''"
  "filepath_Clean ''/abc/def/../../..'' = ''/''"
  "filepath_Clean ''abc/def/../../../ghi/jkl/../../../mno'' = ''../../mno''"
  "filepath_Clean ''/../abc'' = ''/abc''"
  "filepath_Clean ''abc/./../def'' = ''def''"
  "filepath_Clean ''abc//./../def'' = ''def''"
  "filepath_Clean ''abc/../../././../def'' = ''../../def''"
  by code_simp+

lemma library_examples:
  "strings_Split ''a.b.c'' (CHR ''.'') = [''a'', ''b'', ''c'']"
  "strings_Split ''filesystem'' (CHR ''.'') = [''filesystem'']"
  "strings_Split [] (CHR ''.'') = [[]]"
  "filepath_Join ''a'' ''b/c'' = ''a/b/c''"
  "filepath_Join ''a'' [] = ''a''"
  "filepath_Join [] ''a'' = ''a''"
  "filepath_Join [] [] = []"
  "filepath_Join ''/sandbox'' ''.'' = ''/sandbox''"
  "filepath_Dir ''/sandbox/notes/a.txt'' = ''/sandbox/notes''"
  "filepath_Dir ''/a'' = ''/''"
  "filepath_Dir ''a'' = ''.''"
  "filepath_Dir [] = ''.''"
  "strings_Contains ''../../x'' ''/../''"
  "\<not> strings_Contains ''a/..b'' ''/../''"
  by code_simp+

lemma Split_nonempty: "strings_Split s sep \<noteq> []"
  by (induction s) (auto split: list.splits)

lemma Split_append: "strings_Split (a @ sep # b) sep = strings_Split a sep @ strings_Split b sep"
proof (induction a)
  case Nil
  then show ?case by simp
next
  case (Cons c a)
  then show ?case
    using Split_nonempty [of a sep] by (cases "strings_Split a sep") auto
qed

lemma Split_no_sep: "e \<in> set (strings_Split s sep) \<Longrightarrow> sep \<notin> set e"
proof (induction s arbitrary: e)
  case Nil
  then show ?case by simp
next
  case (Cons c s)
  then show ?case
    by (cases "strings_Split s sep") (auto split: if_splits)
qed

lemma Split_no_sep_id: "sep \<notin> set e \<Longrightarrow> strings_Split e sep = [e]"
  by (induction e) auto

lemma Split_Join:
  "xs \<noteq> [] \<Longrightarrow> \<forall>e\<in>set xs. sep \<notin> set e \<Longrightarrow> strings_Split (strings_Join xs [sep]) sep = xs"
proof (induction xs "[sep]" rule: strings_Join.induct)
  case 1
  then show ?case by simp
next
  case (2 x)
  then show ?case by (simp add: Split_no_sep_id)
next
  case (3 x y ys)
  then show ?case by (simp add: Split_append Split_no_sep_id)
qed

lemma clean_elem_kept:
  "\<forall>x\<in>set out. kept x \<Longrightarrow> CHR ''/'' \<notin> set e \<Longrightarrow> \<forall>x\<in>set (clean_elem r e out). kept x"
  by (cases out) (auto simp: clean_elem_def kept_def)

lemma fold_clean_kept:
  "\<forall>x\<in>set out. kept x \<Longrightarrow> \<forall>e\<in>set es. CHR ''/'' \<notin> set e
     \<Longrightarrow> \<forall>x\<in>set (fold (clean_elem r) es out). kept x"
proof (induction es arbitrary: out)
  case Nil
  then show ?case by simp
next
  case (Cons e es)
  have "\<forall>x\<in>set (clean_elem r e out). kept x"
    using Cons.prems by (intro clean_elem_kept) auto
  then show ?case using Cons by simp
qed

lemma rooted_no_dotdot:
  "''..'' \<notin> set out \<Longrightarrow> ''..'' \<notin> set (fold (clean_elem True) es out)"
proof (induction es arbitrary: out)
  case Nil
  then show ?case by simp
next
  case (Cons e es)
  have "''..'' \<notin> set (clean_elem True e out)"
    using Cons.prems by (cases out) (auto simp: clean_elem_def)
  then show ?case using Cons.IH by simp
qed

lemma clean_elem_skip: "e = [] \<or> e = ''.'' \<Longrightarrow> clean_elem r e out = out"
  by (auto simp: clean_elem_def)

lemma clean_elem_name: "e \<noteq> [] \<Longrightarrow> e \<noteq> ''.'' \<Longrightarrow> e \<noteq> ''..'' \<Longrightarrow> clean_elem r e out = e # out"
  by (simp add: clean_elem_def)

lemma clean_elem_pop: "n \<noteq> ''..'' \<Longrightarrow> clean_elem r ''..'' (n # out) = out"
  by (simp add: clean_elem_def)

lemma clean_elem_keep: "out = [] \<or> hd out = ''..'' \<Longrightarrow> clean_elem False ''..'' out = ''..'' # out"
  by (auto simp: clean_elem_def)

lemma clean_elem_root: "clean_elem True ''..'' [] = []"
  by (simp add: clean_elem_def)

lemma fold_clean_names:
  "\<forall>x\<in>set ns. kept x \<and> x \<noteq> ''..'' \<Longrightarrow> fold (clean_elem r) ns S = rev ns @ S"
  by (induction ns arbitrary: S) (auto simp: clean_elem_name kept_def)

lemma replay_unrooted:
  "\<forall>e\<in>set es. CHR ''/'' \<notin> set e \<Longrightarrow>
   fold (clean_elem r) (rev (fold (clean_elem False) es [])) S = fold (clean_elem r) es S"
proof (induction es rule: rev_induct)
  case Nil
  then show ?case by simp
next
  case (snoc x es)
  let ?N = "fold (clean_elem False) es []"
  have IH: "fold (clean_elem r) (rev ?N) S = fold (clean_elem r) es S"
    using snoc by simp
  have K: "\<forall>x\<in>set ?N. kept x"
    using snoc.prems by (intro fold_clean_kept) auto
  show ?case
  proof (cases "x = [] \<or> x = ''.''")
    case True
    then show ?thesis using IH by (auto simp: clean_elem_skip)
  next
    case False
    note nx = this
    show ?thesis
    proof (cases "x = ''..''")
      case False
      then show ?thesis using nx IH by (simp add: clean_elem_name)
    next
      case True
      show ?thesis
      proof (cases "?N \<noteq> [] \<and> hd ?N \<noteq> ''..''")
        case False
        then have "clean_elem False x ?N = ''..'' # ?N"
          using True by (auto simp: clean_elem_keep)
        then show ?thesis using IH True by simp
      next
        case T2: True
        then obtain n N' where N: "?N = n # N'" and n: "n \<noteq> ''..''"
          by (cases ?N) auto
        have kn: "kept n" using K N by simp
        have "clean_elem False x ?N = N'"
          using True N n by (simp add: clean_elem_pop)
        moreover have "fold (clean_elem r) es S = clean_elem r n (fold (clean_elem r) (rev N') S)"
          using IH N by simp
        moreover have "clean_elem r n T = n # T" for T
          using kn n by (simp add: clean_elem_name kept_def)
        ultimately show ?thesis using True n by (simp add: clean_elem_pop)
      qed
    qed
  qed
qed

lemma Clean_alt:
  "filepath_Clean path =
     (let body = strings_Join (rev (clean_out path)) ''/''
      in if filepath_IsAbs path then ''/'' @ body else if body = [] then ''.'' else body)"
  by (simp add: filepath_Clean_def clean_out_def Let_def)

lemma IsAbs_Cons: "filepath_IsAbs (c # cs) = (c = CHR ''/'')"
  by (simp add: filepath_IsAbs_def strings_HasPrefix_def)

lemma IsAbs_Nil: "\<not> filepath_IsAbs []"
  by (simp add: filepath_IsAbs_def strings_HasPrefix_def)

lemma IsAbs_append: "a \<noteq> [] \<Longrightarrow> filepath_IsAbs (a @ b) = filepath_IsAbs a"
  by (cases a) (simp_all add: IsAbs_Cons)

lemma clean_out_kept: "\<forall>x\<in>set (clean_out path). kept x"
  unfolding clean_out_def
  by (rule fold_clean_kept) (auto dest: Split_no_sep)

lemma clean_out_rooted: "filepath_IsAbs path \<Longrightarrow> ''..'' \<notin> set (clean_out path)"
  unfolding clean_out_def using rooted_no_dotdot [of "[]"] by simp

lemma Join_Cons:
  "strings_Join (x # xs) sep = x @ (if xs = [] then [] else sep @ strings_Join xs sep)"
  by (cases xs) simp_all

lemma Join_kept_nonempty: "xs \<noteq> [] \<Longrightarrow> \<forall>x\<in>set xs. kept x \<Longrightarrow> strings_Join xs sep \<noteq> []"
  by (cases xs) (auto simp: Join_Cons kept_def)

lemma Join_kept_not_abs:
  "\<forall>x\<in>set xs. kept x \<Longrightarrow> \<not> filepath_IsAbs (strings_Join xs sep)"
proof (cases xs)
  case Nil
  then show ?thesis by (simp add: IsAbs_Nil)
next
  case (Cons x ys)
  assume "\<forall>x\<in>set xs. kept x"
  then have "kept x" using Cons by simp
  then obtain c cs where "x = c # cs" "c \<noteq> CHR ''/''"
    by (cases x) (auto simp: kept_def)
  then show ?thesis using Cons by (simp add: Join_Cons IsAbs_Cons)
qed

lemma Clean_IsAbs: "filepath_IsAbs (filepath_Clean path) = filepath_IsAbs path"
proof (cases "filepath_IsAbs path")
  case True
  then show ?thesis by (simp add: Clean_alt Let_def IsAbs_Cons)
next
  case False
  have "\<not> filepath_IsAbs (strings_Join (rev (clean_out path)) ''/'')"
    by (rule Join_kept_not_abs) (use clean_out_kept in auto)
  then show ?thesis using False by (simp add: Clean_alt Let_def IsAbs_Cons)
qed

lemma Clean_nonempty: "filepath_Clean path \<noteq> []"
  by (simp add: Clean_alt Let_def)

text \<open>Reading a cleaned path back element by element replays the elements it kept.\<close>

lemma fold_Split_Clean_unrooted:
  assumes "\<not> filepath_IsAbs R"
  shows "fold (clean_elem r) (strings_Split (filepath_Clean R) (CHR ''/'')) S
         = fold (clean_elem r) (strings_Split R (CHR ''/'')) S"
proof -
  let ?out = "clean_out R"
  have K: "\<forall>x\<in>set (rev ?out). kept x" using clean_out_kept by simp
  have replay: "fold (clean_elem r) (rev ?out) S = fold (clean_elem r) (strings_Split R (CHR ''/'')) S"
    using assms replay_unrooted [of "strings_Split R (CHR ''/'')" r S]
    by (auto simp: clean_out_def dest: Split_no_sep)
  show ?thesis
  proof (cases "?out = []")
    case True
    then have "filepath_Clean R = ''.''" using assms by (simp add: Clean_alt)
    then show ?thesis using replay True by (simp add: clean_elem_skip)
  next
    case False
    then have ne: "strings_Join (rev ?out) ''/'' \<noteq> []"
      using K by (intro Join_kept_nonempty) auto
    then have C: "filepath_Clean R = strings_Join (rev ?out) ''/''"
      using assms by (simp add: Clean_alt Let_def)
    have "strings_Split (strings_Join (rev ?out) [CHR ''/'']) (CHR ''/'') = rev ?out"
      using False K by (intro Split_Join) (auto simp: kept_def)
    then show ?thesis using C replay by simp
  qed
qed

lemma fold_Split_Clean_rooted:
  assumes "filepath_IsAbs R"
  shows "fold (clean_elem True) (strings_Split (filepath_Clean R) (CHR ''/'')) [] = clean_out R"
proof -
  let ?out = "clean_out R"
  have K: "\<forall>x\<in>set (rev ?out). kept x \<and> x \<noteq> ''..''"
    using clean_out_kept clean_out_rooted [OF assms] by auto
  have C: "filepath_Clean R = CHR ''/'' # strings_Join (rev ?out) ''/''"
    using assms by (simp add: Clean_alt Let_def)
  show ?thesis
  proof (cases "?out = []")
    case True
    then show ?thesis using C by (simp add: clean_elem_skip)
  next
    case False
    have "strings_Split (strings_Join (rev ?out) [CHR ''/'']) (CHR ''/'') = rev ?out"
      using False K by (intro Split_Join) (auto simp: kept_def)
    then show ?thesis using C fold_clean_names [OF K, of True "[]"] by (simp add: clean_elem_skip)
  qed
qed

lemma Clean_idem_rooted:
  assumes "filepath_IsAbs R"
  shows "filepath_Clean (filepath_Clean R) = filepath_Clean R"
proof -
  have A: "filepath_IsAbs (filepath_Clean R)" using assms by (simp add: Clean_IsAbs)
  have "clean_out (filepath_Clean R) = clean_out R"
    using fold_Split_Clean_rooted [OF assms] A by (simp add: clean_out_def)
  then show ?thesis using A assms by (simp add: Clean_alt)
qed

lemma Clean_slash_dot:
  assumes "a \<noteq> []"
  shows "filepath_Clean (a @ ''/.'') = filepath_Clean a"
    and "filepath_Clean (a @ ''/'') = filepath_Clean a"
proof -
  have "clean_out (a @ ''/.'') = clean_out a"
    using assms by (simp add: clean_out_def IsAbs_append Split_append clean_elem_skip)
  then show "filepath_Clean (a @ ''/.'') = filepath_Clean a"
    using assms by (simp add: Clean_alt IsAbs_append)
  have "clean_out (a @ ''/'') = clean_out a"
    using assms by (simp add: clean_out_def IsAbs_append Split_append clean_elem_skip)
  then show "filepath_Clean (a @ ''/'') = filepath_Clean a"
    using assms by (simp add: Clean_alt IsAbs_append)
qed

lemma Clean_under:
  assumes "a \<noteq> []" "\<not> filepath_IsAbs R"
  shows "filepath_Clean (a @ ''/'' @ filepath_Clean R) = filepath_Clean (a @ ''/'' @ R)"
proof -
  have "clean_out (a @ ''/'' @ filepath_Clean R) = clean_out (a @ ''/'' @ R)"
    using assms by (simp add: clean_out_def IsAbs_append Split_append fold_Split_Clean_unrooted)
  then show ?thesis using assms by (simp add: Clean_alt IsAbs_append)
qed

lemma HasPrefix_refl: "strings_HasPrefix s s"
  by (simp add: strings_HasPrefix_def)

lemma bottom_dotdot_stays:
  "out \<noteq> [] \<Longrightarrow> last out = ''..'' \<Longrightarrow>
   fold (clean_elem False) es out \<noteq> [] \<and> last (fold (clean_elem False) es out) = ''..''"
proof (induction es arbitrary: out)
  case Nil
  then show ?case by simp
next
  case (Cons e es)
  have "clean_elem False e out \<noteq> [] \<and> last (clean_elem False e out) = ''..''"
  proof (cases out)
    case Nil
    then show ?thesis using Cons.prems by simp
  next
    case (Cons x xs)
    then show ?thesis using Cons.prems
      by (cases xs) (auto simp: clean_elem_def)
  qed
  then show ?case using Cons.IH by simp
qed

lemma climbs_bottom_dotdot:
  "''..'' \<notin> set out \<Longrightarrow> climbs (length out) es \<Longrightarrow>
   fold (clean_elem False) es out \<noteq> [] \<and> last (fold (clean_elem False) es out) = ''..''"
proof (induction es arbitrary: out)
  case Nil
  then show ?case by simp
next
  case (Cons e es)
  show ?case
  proof (cases "e = [] \<or> e = ''.''")
    case True
    then show ?thesis using Cons by (auto simp: clean_elem_skip)
  next
    case False
    note ne = this
    show ?thesis
    proof (cases "e = ''..''")
      case False
      then have "clean_elem False e out = e # out" using ne by (simp add: clean_elem_name)
      moreover have "climbs (length (e # out)) es" using Cons.prems ne False by simp
      moreover have "''..'' \<notin> set (e # out)" using Cons.prems False by auto
      ultimately show ?thesis using Cons.IH [of "e # out"] by simp
    next
      case True
      show ?thesis
      proof (cases out)
        case Nil
        then have "clean_elem False e out = [''..'']" using True by (simp add: clean_elem_keep)
        then show ?thesis using bottom_dotdot_stays [of "[''..'']" es] by simp
      next
        case (Cons x xs)
        then have x: "x \<noteq> ''..''" and xs: "''..'' \<notin> set xs" using Cons.prems by auto
        have "clean_elem False e out = xs" using True Cons x by (simp add: clean_elem_pop)
        moreover have "climbs (length xs) es" using Cons.prems(2) True Cons by simp
        ultimately show ?thesis using Cons.IH [OF xs] by simp
      qed
    qed
  qed
qed

lemma Clean_climbs_prefix:
  assumes "\<not> filepath_IsAbs path" "climbs_above_start path"
  shows "strings_HasPrefix (filepath_Clean path) ''..''"
proof -
  let ?out = "clean_out path"
  have "?out \<noteq> [] \<and> last ?out = ''..''"
    using assms climbs_bottom_dotdot [of "[]" "strings_Split path (CHR ''/'')"]
    by (simp add: clean_out_def climbs_above_start_def)
  then obtain ys where "rev ?out = ''..'' # ys"
    by (cases "rev ?out") (auto simp: hd_rev [symmetric])
  then show ?thesis
    using assms(1) by (simp add: Clean_alt Let_def Join_Cons strings_HasPrefix_def)
qed

section \<open>Path resolution\<close>

text \<open>
  C2. An absolute candidate is returned unchanged as the resolved path, for every sandbox
  root (absolute or relative) and every environment: no containment check can reject it,
  whether or not it lies inside the root.
\<close>

theorem resolvePath_absolute_unchanged:
  "filepath_IsAbs path \<Longrightarrow> resolvePath p env path = Inr path"
  by (simp add: resolvePath_def)

theorem resolvePath_absolute_unchanged_witness:
  "filepath_IsAbs ''/etc/passwd'' \<and>
   resolvePath \<lparr>rootDir = ''/sandbox''\<rparr> sandbox_env ''/etc/passwd'' = Inr ''/etc/passwd''"
  using resolvePath_absolute_unchanged [of "''/etc/passwd''" "\<lparr>rootDir = ''/sandbox''\<rparr>" sandbox_env]
  by (simp add: IsAbs_Cons)

text \<open>
  C9 (as amended). The empty candidate resolves, without error, to the absolute form of the
  sandbox root (\<open>filepath.Abs\<close> of the root) whenever that form can be computed: the root
  is absolute, or \<open>os.Getwd\<close> succeeds with an absolute working directory.
\<close>

theorem resolvePath_empty_candidate:
  assumes "filepath_IsAbs (rootDir p) \<or> (\<exists>wd. getwd env = Inr wd \<and> filepath_IsAbs wd)"
  shows "\<exists>r. resolvePath p env [] = Inr r \<and> filepath_Abs env (rootDir p) = Inr r"
proof -
  let ?R = "rootDir p"
  have c0: "filepath_Clean [] = ''.''"
    by (simp add: filepath_Clean_def filepath_IsAbs_def strings_HasPrefix_def clean_elem_def)
  have np: "\<not> strings_HasPrefix ''.'' ''..''" "\<not> strings_HasPrefix ''.'' ''/../''"
    by (simp_all add: strings_HasPrefix_def)
  show ?thesis
  proof (cases "filepath_IsAbs ?R")
    case True
    then have ne: "?R \<noteq> []" using IsAbs_Nil by auto
    have full: "filepath_Join ?R ''.'' = filepath_Clean ?R"
      using ne Clean_slash_dot(1) [OF ne] by (simp add: filepath_Join_def)
    have "filepath_Abs env (filepath_Clean ?R) = Inr (filepath_Clean ?R)"
      using True by (simp add: filepath_Abs_def Clean_IsAbs Clean_idem_rooted)
    moreover have "filepath_Abs env ?R = Inr (filepath_Clean ?R)"
      using True by (simp add: filepath_Abs_def)
    ultimately show ?thesis
      using True by (simp add: resolvePath_def Let_def IsAbs_Nil c0 np full HasPrefix_refl)
  next
    case False
    then obtain wd where wd: "getwd env = Inr wd" "filepath_IsAbs wd" using assms by auto
    then have wne: "wd \<noteq> []" using IsAbs_Nil by auto
    have "filepath_Abs env (filepath_Join ?R ''.'') = filepath_Abs env ?R"
    proof (cases "?R = []")
      case True
      have "filepath_Clean ''.'' = ''.''"
        by (simp add: filepath_Clean_def filepath_IsAbs_def strings_HasPrefix_def clean_elem_def)
      then show ?thesis
        using True wd wne Clean_slash_dot [OF wne]
        by (simp add: filepath_Join_def filepath_Abs_def IsAbs_Nil IsAbs_Cons)
    next
      case R: False
      have J: "filepath_Join ?R ''.'' = filepath_Clean ?R"
        using R Clean_slash_dot(1) [OF R] by (simp add: filepath_Join_def)
      have "filepath_Abs env (filepath_Clean ?R)
            = Inr (filepath_Clean (wd @ ''/'' @ filepath_Clean ?R))"
        using False wd wne by (simp add: filepath_Abs_def Clean_IsAbs filepath_Join_def)
      moreover have "filepath_Abs env ?R = Inr (filepath_Clean (wd @ ''/'' @ ?R))"
        using False wd wne by (simp add: filepath_Abs_def filepath_Join_def)
      ultimately show ?thesis
        using Clean_under [OF wne False] by (simp add: J)
    qed
    moreover have "\<exists>r. filepath_Abs env ?R = Inr r"
      using False wd by (simp add: filepath_Abs_def)
    ultimately show ?thesis
      using False by (auto simp: resolvePath_def Let_def IsAbs_Nil c0 np)
  qed
qed

lemma Abs_dot_sandbox: "filepath_Abs sandbox_env ''.'' = Inr ''/sandbox''"
  by (simp add: filepath_Abs_def sandbox_env_def IsAbs_Cons filepath_Join_def filepath_Clean_def
      clean_elem_def)

theorem resolvePath_empty_candidate_witness:
  "(filepath_IsAbs (rootDir NewFilesystemProvider)
      \<or> (getwd sandbox_env = Inr ''/sandbox'' \<and> filepath_IsAbs ''/sandbox'')) \<and>
   resolvePath NewFilesystemProvider sandbox_env [] = Inr ''/sandbox'' \<and>
   filepath_Abs sandbox_env (rootDir NewFilesystemProvider) = Inr ''/sandbox''"
proof -
  have h: "getwd sandbox_env = Inr ''/sandbox'' \<and> filepath_IsAbs ''/sandbox''"
    by (simp add: sandbox_env_def IsAbs_Cons)
  then have "filepath_IsAbs (rootDir NewFilesystemProvider)
      \<or> (\<exists>wd. getwd sandbox_env = Inr wd \<and> filepath_IsAbs wd)" by blast
  from resolvePath_empty_candidate [OF this]
  obtain r where r: "resolvePath NewFilesystemProvider sandbox_env [] = Inr r"
    "filepath_Abs sandbox_env (rootDir NewFilesystemProvider) = Inr r" by blast
  have "rootDir NewFilesystemProvider = ''.''" by (simp add: NewFilesystemProvider_def)
  then have "r = ''/sandbox''" using r(2) Abs_dot_sandbox by simp
  then show ?thesis using r h by simp
qed

text \<open>
  The claim as first stated fails: for the provider's own root \<open>.\<close>, in a process whose
  working directory cannot be determined, the empty candidate does not resolve; the error
  of \<open>os.Getwd\<close> is returned.
\<close>

theorem resolvePath_empty_getwd_counterexample:
  "rootDir NewFilesystemProvider = ''.'' \<and> getwd lost_env = Inl GetwdError
   \<and> resolvePath NewFilesystemProvider lost_env [] = Inl GetwdError"
  by (simp add: NewFilesystemProvider_def lost_env_def resolvePath_def Let_def IsAbs_Nil IsAbs_Cons
      filepath_Clean_def clean_elem_def strings_HasPrefix_def filepath_Join_def filepath_Abs_def)

text \<open>
  C1 (as amended). A candidate that is not absolute and whose \<open>..\<close> elements climb above
  the directory it starts from is rejected with the PathEscape error, and no path is
  returned, for every sandbox root (an absolute one in particular). A \<open>../\<close> that
  cleaning cancels against the name before it does not count as climbing.
\<close>

theorem resolvePath_rejects_climbing:
  assumes "\<not> filepath_IsAbs path" "climbs_above_start path"
  shows "resolvePath p env path = Inl PathEscape"
  using assms Clean_climbs_prefix [OF assms] by (simp add: resolvePath_def Let_def)

lemma split_example: "strings_Split ''a/../../b'' (CHR ''/'') = [''a'', ''..'', ''..'', ''b'']"
  by simp

theorem resolvePath_rejects_climbing_witness:
  "\<not> filepath_IsAbs ''a/../../b'' \<and> climbs_above_start ''a/../../b'' \<and>
   resolvePath \<lparr>rootDir = ''/sandbox''\<rparr> sandbox_env ''a/../../b'' = Inl PathEscape"
proof -
  have 1: "\<not> filepath_IsAbs ''a/../../b''" by (simp add: IsAbs_Cons)
  have 2: "climbs_above_start ''a/../../b''"
    unfolding climbs_above_start_def split_example by simp
  show ?thesis using 1 2 resolvePath_rejects_climbing [OF 1 2] by simp
qed

text \<open>
  The claim as first stated fails: \<open>a/../b\<close> contains a \<open>../\<close> segment, the root
  \<open>/sandbox\<close> is absolute, and the candidate resolves to \<open>/sandbox/b\<close>.
\<close>

theorem resolvePath_dotdot_segment_counterexample:
  "filepath_IsAbs ''/sandbox'' \<and> strings_Contains ''a/../b'' ''../'' \<and>
   resolvePath \<lparr>rootDir = ''/sandbox''\<rparr> sandbox_env ''a/../b'' = Inr ''/sandbox/b''"
  by (simp add: resolvePath_def Let_def IsAbs_Cons filepath_Clean_def clean_elem_def
      strings_HasPrefix_def filepath_Join_def filepath_Abs_def)

section \<open>Base64: decoding what was encoded\<close>

lemma index_of_nth:
  "distinct xs \<Longrightarrow> i < length xs \<Longrightarrow> index_of (xs ! i) xs = Some i"
proof (induction xs arbitrary: i)
  case Nil
  then show ?case by simp
next
  case (Cons x xs)
  then show ?case by (cases i) auto
qed

lemma b64_alphabet_distinct: "distinct b64_alphabet"
  by (simp add: b64_alphabet_def)

lemma b64_alphabet_length: "length b64_alphabet = 64"
  by (simp add: b64_alphabet_def)

lemma sextet_less: "sextet val k < 64"
  by (simp add: sextet_def)

lemma b64_value_char: "b64_value (b64_char (sextet val k)) = Some (sextet val k)"
  unfolding b64_value_def b64_char_def
  by (rule index_of_nth [OF b64_alphabet_distinct]) (simp add: b64_alphabet_length sextet_less)

lemma b64_char_in: "b64_char (sextet val k) \<in> set b64_alphabet"
  unfolding b64_char_def by (rule nth_mem) (simp add: b64_alphabet_length sextet_less)

lemma b64_char_plain:
  "b64_char (sextet val k) \<noteq> CHR ''=''" "b64_char (sextet val k) \<noteq> CHR 0x0A"
  "b64_char (sextet val k) \<noteq> CHR 0x0D"
  using b64_char_in [of val k] by (auto simp: b64_alphabet_def)

lemma recon:
  fixes v :: nat
  shows "(v div 262144) * 262144 + (v div 4096 mod 64) * 4096 + (v div 64 mod 64) * 64 + v mod 64 = v"
proof -
  define x where "x = v div 64"
  define y where "y = x div 64"
  define z where "z = y div 64"
  have a: "v div 4096 = y" by (simp add: x_def y_def div_mult2_eq)
  have b: "v div 262144 = z" by (simp add: x_def y_def z_def div_mult2_eq)
  have 1: "v = x * 64 + v mod 64" by (simp add: x_def)
  have 2: "x = y * 64 + x mod 64" by (simp add: y_def)
  have 3: "y = z * 64 + y mod 64" by (simp add: z_def)
  show ?thesis unfolding a b x_def [symmetric] using 1 2 3 by linarith
qed

lemma pack3_less: "pack3 a b c < 16777216"
proof -
  have "of_char a < (256::nat)" "of_char b < (256::nat)" "of_char c < (256::nat)" by simp_all
  then show ?thesis unfolding pack3_def by linarith
qed

lemma pack4_sextets:
  assumes "v < 16777216"
  shows "pack4 (sextet v 18) (sextet v 12) (sextet v 6) (sextet v 0) = v"
proof -
  have "v div 262144 < 64" using assms by simp
  then show ?thesis using recon [of v] by (simp add: pack4_def sextet_def)
qed

lemma bytes3:
  fixes a b c :: nat
  assumes "a < 256" "b < 256" "c < 256"
  shows "(a * 65536 + b * 256 + c) div 65536 = a"
    and "(a * 65536 + b * 256 + c) div 256 mod 256 = b"
    and "(a * 65536 + b * 256 + c) mod 256 = c"
proof -
  show "(a * 65536 + b * 256 + c) div 65536 = a" using assms by simp
  have "(a * 65536 + b * 256 + c) div 256 = a * 256 + b" using assms by simp
  then show "(a * 65536 + b * 256 + c) div 256 mod 256 = b" using assms by simp
  have "a * 65536 + b * 256 + c = (a * 256 + b) * 256 + c" by simp
  then show "(a * 65536 + b * 256 + c) mod 256 = c" using assms by (metis mod_mult_self3 mod_less)
qed

lemma octets_pack3:
  "octet (pack3 a b c) 16 = a" "octet (pack3 a b c) 8 = b" "octet (pack3 a b c) 0 = c"
proof -
  have bd: "of_char a < (256::nat)" "of_char b < (256::nat)" "of_char c < (256::nat)" by simp_all
  have "pack3 a b c div 65536 mod 256 = of_char a"
    unfolding pack3_def using bytes3(1) [OF bd] by simp
  then show "octet (pack3 a b c) 16 = a" by (simp add: octet_def)
  have "pack3 a b c div 256 mod 256 = of_char b"
    unfolding pack3_def using bytes3(2) [OF bd] by simp
  then show "octet (pack3 a b c) 8 = b" by (simp add: octet_def)
  have "pack3 a b c mod 256 = of_char c"
    unfolding pack3_def using bytes3(3) [OF bd] by simp
  then show "octet (pack3 a b c) 0 = c" by (simp add: octet_def)
qed

lemma sextet_zero:
  "sextet (pack3 a b (CHR 0x00)) 0 = 0"
  "sextet (pack3 a (CHR 0x00) (CHR 0x00)) 0 = 0"
  "sextet (pack3 a (CHR 0x00) (CHR 0x00)) 6 = 0"
proof -
  have d: "(64::nat) dvd x * 65536 + y * 256" for x y
    by (intro dvd_add dvd_mult) simp_all
  show "sextet (pack3 a b (CHR 0x00)) 0 = 0"
    using d [of "of_char a" "of_char b"] by (simp add: sextet_def pack3_def)
  show "sextet (pack3 a (CHR 0x00) (CHR 0x00)) 0 = 0"
    using d [of "of_char a" 0] by (simp add: sextet_def pack3_def)
  have "(x * 65536) div 64 = x * (1024::nat)" for x by simp
  moreover have "(64::nat) dvd x * 1024" for x by (intro dvd_mult) simp
  ultimately show "sextet (pack3 a (CHR 0x00) (CHR 0x00)) 6 = 0"
    by (simp add: sextet_def pack3_def)
qed

lemma decode_last3:
  assumes "v < 16777216"
  shows "decode_last (b64_char (sextet v 18)) (b64_char (sextet v 12)) (b64_char (sextet v 6))
           (b64_char (sextet v 0))
         = Inr [octet v 16, octet v 8, octet v 0]"
  by (simp add: decode_last_def b64_value_char b64_char_plain pack4_sextets [OF assms])

lemma decode_last2:
  assumes "v < 16777216" "sextet v 0 = 0"
  shows "decode_last (b64_char (sextet v 18)) (b64_char (sextet v 12)) (b64_char (sextet v 6))
           (CHR ''='')
         = Inr [octet v 16, octet v 8]"
  using pack4_sextets [OF assms(1)] assms(2)
  by (simp add: decode_last_def b64_value_char b64_char_plain)

lemma decode_last1:
  assumes "v < 16777216" "sextet v 0 = 0" "sextet v 6 = 0"
  shows "decode_last (b64_char (sextet v 18)) (b64_char (sextet v 12)) (CHR ''='') (CHR ''='')
         = Inr [octet v 16]"
  using pack4_sextets [OF assms(1)] assms(2,3)
  by (simp add: decode_last_def b64_value_char b64_char_plain)

lemma decode_group:
  assumes "v < 16777216" "rest \<noteq> []"
  shows "decode_groups (b64_char (sextet v 18) # b64_char (sextet v 12) # b64_char (sextet v 6)
           # b64_char (sextet v 0) # rest)
         = (case decode_groups rest of
              Inl err \<Rightarrow> Inl err
            | Inr bs \<Rightarrow> Inr (octet v 16 # octet v 8 # octet v 0 # bs))"
  using assms(2) by (simp add: b64_value_char pack4_sextets [OF assms(1)])

lemma Encode_empty: "base64_EncodeToString bs = [] \<longleftrightarrow> bs = []"
  by (induction bs rule: base64_EncodeToString.induct) (simp_all add: Let_def)

lemma decode_groups_Encode: "decode_groups (base64_EncodeToString bs) = Inr bs"
proof (induction bs rule: base64_EncodeToString.induct)
  case 1
  then show ?case by simp
next
  case (2 a)
  show ?case
    using decode_last1 [OF pack3_less sextet_zero(2) sextet_zero(3), of a]
    by (simp add: Let_def octets_pack3)
next
  case (3 a b)
  show ?case
    using decode_last2 [OF pack3_less sextet_zero(1), of a b]
    by (simp add: Let_def octets_pack3)
next
  case (4 a b c rest)
  show ?case
  proof (cases "rest = []")
    case True
    then show ?thesis
      using decode_last3 [OF pack3_less, of a b c] by (simp add: Let_def octets_pack3)
  next
    case False
    then have "base64_EncodeToString rest \<noteq> []" by (simp add: Encode_empty)
    then show ?thesis
      using decode_group [OF pack3_less, of "base64_EncodeToString rest" a b c] 4
      by (simp add: Let_def octets_pack3)
  qed
qed

lemma Encode_plain: "c \<in> set (base64_EncodeToString bs) \<Longrightarrow> c \<noteq> CHR 0x0A \<and> c \<noteq> CHR 0x0D"
  by (induction bs rule: base64_EncodeToString.induct) (auto simp: Let_def b64_char_plain)

lemma Decode_Encode: "base64_DecodeString (base64_EncodeToString bs) = Inr bs"
proof -
  have "filter (\<lambda>c. c \<noteq> CHR 0x0A \<and> c \<noteq> CHR 0x0D) (base64_EncodeToString bs) = base64_EncodeToString bs"
    using Encode_plain by (intro filter_True) blast
  then show ?thesis by (simp add: base64_DecodeString_def decode_groups_Encode)
qed

section \<open>Tools and resources of the provider\<close>

lemma tool_error_fields:
  "tr_Status (tool_error request message) = ''error''"
  "tr_RequestID (tool_error request message) = tq_RequestID request"
  "tr_Result (tool_error request message) = None"
  "tr_Error (tool_error request message) = Some \<lparr>Code = ''execution_error'', Message = message\<rparr>"
  by (simp_all add: tool_error_def NewToolResultError_def)

text \<open>
  C7. Given the same arguments map and request id, the \<open>read\<close> tool and the \<open>file\<close>
  resource produce the same outcome on the same file system, and so do the \<open>list\<close> tool
  and the \<open>directory\<close> resource: the resource envelope has the status, payload, request id
  and error message of the tool envelope; only the envelope type (and with it the error
  code, \<open>resource_error\<close> for \<open>execution_error\<close>) differs.
\<close>

theorem tool_and_resource_agree:
  "loadFile p env fs \<lparr>ResourceID = rsid, rq_RequestID = rid, rq_Params = args\<rparr>
     = as_resource_result
         (readFile p env fs \<lparr>ToolID = tid, tq_RequestID = rid, tq_Params = \<lparr>Arguments = args\<rparr>\<rparr>)
   \<and> loadDirectory p env fs \<lparr>ResourceID = rsid, rq_RequestID = rid, rq_Params = args\<rparr>
     = as_resource_result
         (listDirectory p env fs \<lparr>ToolID = tid, tq_RequestID = rid, tq_Params = \<lparr>Arguments = args\<rparr>\<rparr>)"
proof
  show "loadFile p env fs \<lparr>ResourceID = rsid, rq_RequestID = rid, rq_Params = args\<rparr>
     = as_resource_result
         (readFile p env fs \<lparr>ToolID = tid, tq_RequestID = rid, tq_Params = \<lparr>Arguments = args\<rparr>\<rparr>)"
    unfolding loadFile_def readFile_def
    by (simp add: Let_def as_resource_result_def tool_error_def resource_error_def
        NewToolResultError_def NewResourceResultError_def NewToolResultJSON_def
        NewResourceResultJSON_def
        split: option.splits any.splits sum.splits)
  show "loadDirectory p env fs \<lparr>ResourceID = rsid, rq_RequestID = rid, rq_Params = args\<rparr>
     = as_resource_result
         (listDirectory p env fs \<lparr>ToolID = tid, tq_RequestID = rid, tq_Params = \<lparr>Arguments = args\<rparr>\<rparr>)"
    unfolding loadDirectory_def listDirectory_def
    by (simp add: Let_def as_resource_result_def tool_error_def resource_error_def
        NewToolResultError_def NewResourceResultError_def NewToolResultJSON_def
        NewResourceResultJSON_def
        split: option.splits any.splits sum.splits)
qed

theorem tool_and_resource_agree_witness:
  "loadFile NewFilesystemProvider sandbox_env notes_fs
      \<lparr>ResourceID = ''filesystem.file'', rq_RequestID = ''req-1'',
       rq_Params = map_of [(''path'', AString ''notes/a.txt'')]\<rparr>
     = as_resource_result
         (readFile NewFilesystemProvider sandbox_env notes_fs
            \<lparr>ToolID = ''filesystem.read'', tq_RequestID = ''req-1'',
             tq_Params = \<lparr>Arguments = map_of [(''path'', AString ''notes/a.txt'')]\<rparr>\<rparr>)
   \<and> loadDirectory NewFilesystemProvider sandbox_env notes_fs
      \<lparr>ResourceID = ''filesystem.file'', rq_RequestID = ''req-1'',
       rq_Params = map_of [(''path'', AString ''notes/a.txt'')]\<rparr>
     = as_resource_result
         (listDirectory NewFilesystemProvider sandbox_env notes_fs
            \<lparr>ToolID = ''filesystem.read'', tq_RequestID = ''req-1'',
             tq_Params = \<lparr>Arguments = map_of [(''path'', AString ''notes/a.txt'')]\<rparr>\<rparr>)"
  by (rule tool_and_resource_agree)

text \<open>
  C8. A capability name outside the provider's tools (resources) gets an envelope with
  status \<open>error\<close> and code \<open>unknown_tool\<close> (\<open>unknown_resource\<close>), returned with a
  nil Go error, and the file system is left as it was.
\<close>

theorem unknown_capability_envelope:
  "(toolName \<notin> {''list'', ''read'', ''write'', ''delete''} \<longrightarrow>
      FilesystemProvider_CallTool p env toolName request fs
      = ((\<lparr>tr_RequestID = tq_RequestID request, tr_Status = ''error'', tr_Result = None,
            tr_Error = Some \<lparr>Code = ''unknown_tool'',
                             Message = ''Unknown tool: '' @ toolName\<rparr>\<rparr>, None), fs))
   \<and> (resourceName \<notin> {''file'', ''directory''} \<longrightarrow>
      FilesystemProvider_LoadResource p env resourceName lrequest fs
      = ((\<lparr>rr_RequestID = rq_RequestID lrequest, rr_Status = ''error'', rr_Content = None,
            rr_Error = Some \<lparr>Code = ''unknown_resource'',
                             Message = ''Unknown resource: '' @ resourceName\<rparr>\<rparr>, None), fs))"
  by (simp add: FilesystemProvider_CallTool_def FilesystemProvider_LoadResource_def)

theorem unknown_capability_envelope_witness:
  "''rename'' \<notin> {''list'', ''read'', ''write'', ''delete''}
   \<and> FilesystemProvider_CallTool NewFilesystemProvider sandbox_env ''rename''
        (tool_request ''filesystem.rename'' []) sandbox_fs
      = ((\<lparr>tr_RequestID = ''req-1'', tr_Status = ''error'', tr_Result = None,
            tr_Error = Some \<lparr>Code = ''unknown_tool'', Message = ''Unknown tool: rename''\<rparr>\<rparr>,
          None), sandbox_fs)
   \<and> ''link'' \<notin> {''file'', ''directory''}
   \<and> FilesystemProvider_LoadResource NewFilesystemProvider sandbox_env ''link''
        (resource_request ''filesystem.link'' []) sandbox_fs
      = ((\<lparr>rr_RequestID = ''req-1'', rr_Status = ''error'', rr_Content = None,
            rr_Error = Some \<lparr>Code = ''unknown_resource'',
                             Message = ''Unknown resource: link''\<rparr>\<rparr>,
          None), sandbox_fs)"
  using unknown_capability_envelope [of "''rename''" NewFilesystemProvider sandbox_env
      "tool_request ''filesystem.rename'' []" sandbox_fs "''link''"
      "resource_request ''filesystem.link'' []"]
  by (simp add: tool_request_def resource_request_def)

section \<open>The encoding argument\<close>

lemma encoding_of_text: "encoding_of (args(''encoding'' \<mapsto> AString ''text'')) = ''text''"
  by (simp add: encoding_of_def)

lemma encoding_of_not_base64:
  "args ''encoding'' \<noteq> Some (AString ''base64'') \<Longrightarrow> encoding_of args \<noteq> ''base64''"
  by (auto simp: encoding_of_def split: option.splits any.splits)

lemma file_content_text:
  "encoding \<noteq> ''base64'' \<Longrightarrow> file_content encoding pathParam data = file_content ''text'' pathParam data"
  by (simp add: file_content_def)

lemma tool_error_Params:
  "tool_error (request\<lparr>tq_Params := ps\<rparr>) message = tool_error request message"
  by (simp add: tool_error_def)

lemma resource_error_Params:
  "resource_error (request\<lparr>rq_Params := ps\<rparr>) message = resource_error request message"
  by (simp add: resource_error_def)

text \<open>
  C10. An \<open>encoding\<close> argument that is not the string \<open>base64\<close> (absent, another string
  such as \<open>BASE64\<close> or \<open>utf-8\<close>, or not a string) gives \<open>read\<close>, \<open>write\<close> and the
  \<open>file\<close> resource exactly the outcome of the same request with encoding \<open>text\<close>: no
  error is raised for an encoding outside the advertised enumeration.
\<close>

theorem encoding_defaults_to_text:
  "(Arguments (tq_Params request) ''encoding'' \<noteq> Some (AString ''base64'') \<longrightarrow>
      readFile p env fs request
        = readFile p env fs
            (request\<lparr>tq_Params :=
               \<lparr>Arguments = (Arguments (tq_Params request))(''encoding'' \<mapsto> AString ''text'')\<rparr>\<rparr>)
      \<and> writeFile p env fs request
        = writeFile p env fs
            (request\<lparr>tq_Params :=
               \<lparr>Arguments = (Arguments (tq_Params request))(''encoding'' \<mapsto> AString ''text'')\<rparr>\<rparr>))
   \<and> (rq_Params lrequest ''encoding'' \<noteq> Some (AString ''base64'') \<longrightarrow>
      loadFile p env fs lrequest
        = loadFile p env fs
            (lrequest\<lparr>rq_Params := (rq_Params lrequest)(''encoding'' \<mapsto> AString ''text'')\<rparr>))"
proof (intro conjI impI)
  assume a: "Arguments (tq_Params request) ''encoding'' \<noteq> Some (AString ''base64'')"
  have e: "encoding_of (Arguments (tq_Params request)) \<noteq> ''base64''"
    using a by (rule encoding_of_not_base64)
  show "readFile p env fs request
        = readFile p env fs
            (request\<lparr>tq_Params :=
               \<lparr>Arguments = (Arguments (tq_Params request))(''encoding'' \<mapsto> AString ''text'')\<rparr>\<rparr>)"
    unfolding readFile_def
    by (simp add: Let_def encoding_of_text file_content_text [OF e] tool_error_Params
        split: option.splits any.splits sum.splits)
  show "writeFile p env fs request
        = writeFile p env fs
            (request\<lparr>tq_Params :=
               \<lparr>Arguments = (Arguments (tq_Params request))(''encoding'' \<mapsto> AString ''text'')\<rparr>\<rparr>)"
    unfolding writeFile_def using e
    by (simp add: Let_def encoding_of_text tool_error_Params
        split: option.splits any.splits sum.splits prod.splits)
next
  assume a: "rq_Params lrequest ''encoding'' \<noteq> Some (AString ''base64'')"
  have e: "encoding_of (rq_Params lrequest) \<noteq> ''base64''"
    using a by (rule encoding_of_not_base64)
  show "loadFile p env fs lrequest
        = loadFile p env fs
            (lrequest\<lparr>rq_Params := (rq_Params lrequest)(''encoding'' \<mapsto> AString ''text'')\<rparr>)"
    unfolding loadFile_def
    by (simp add: Let_def encoding_of_text file_content_text [OF e] resource_error_Params
        split: option.splits any.splits sum.splits)
qed

lemma text_requests:
  "readFile NewFilesystemProvider sandbox_env notes_fs
     ((tool_request ''filesystem.write''
         [(''path'', AString ''notes/a.txt''), (''content'', AString ''hi''),
          (''encoding'', AString ''BASE64'')])
      \<lparr>tq_Params := \<lparr>Arguments =
         (Arguments (tq_Params (tool_request ''filesystem.write''
            [(''path'', AString ''notes/a.txt''), (''content'', AString ''hi''),
             (''encoding'', AString ''BASE64'')])))
         (''encoding'' \<mapsto> AString ''text'')\<rparr>\<rparr>)
   = \<lparr>tr_RequestID = ''req-1'', tr_Status = ''success'',
      tr_Result = Some (JSONPayload (FileContentJSON
         \<lparr>fc_Path = ''notes/a.txt'', fc_Content = ''hi'', fc_IsText = True\<rparr>)),
      tr_Error = None\<rparr>"
  "writeFile NewFilesystemProvider sandbox_env notes_fs
     ((tool_request ''filesystem.write''
         [(''path'', AString ''notes/a.txt''), (''content'', AString ''hi''),
          (''encoding'', AString ''BASE64'')])
      \<lparr>tq_Params := \<lparr>Arguments =
         (Arguments (tq_Params (tool_request ''filesystem.write''
            [(''path'', AString ''notes/a.txt''), (''content'', AString ''hi''),
             (''encoding'', AString ''BASE64'')])))
         (''encoding'' \<mapsto> AString ''text'')\<rparr>\<rparr>)
   = (\<lparr>tr_RequestID = ''req-1'', tr_Status = ''success'',
        tr_Result = Some (TextPayload ''File written successfully: notes/a.txt''),
        tr_Error = None\<rparr>, notes_fs)"
  "loadFile NewFilesystemProvider sandbox_env notes_fs
     ((resource_request ''filesystem.file''
         [(''path'', AString ''notes/a.txt''), (''encoding'', ABool True)])
      \<lparr>rq_Params :=
         (rq_Params (resource_request ''filesystem.file''
            [(''path'', AString ''notes/a.txt''), (''encoding'', ABool True)]))
         (''encoding'' \<mapsto> AString ''text'')\<rparr>)
   = \<lparr>rr_RequestID = ''req-1'', rr_Status = ''success'',
      rr_Content = Some (JSONPayload (FileContentJSON
         \<lparr>fc_Path = ''notes/a.txt'', fc_Content = ''hi'', fc_IsText = True\<rparr>)),
      rr_Error = None\<rparr>"
  by code_simp+

theorem encoding_defaults_to_text_witness:
  "Arguments (tq_Params (tool_request ''filesystem.write''
         [(''path'', AString ''notes/a.txt''), (''content'', AString ''hi''),
          (''encoding'', AString ''BASE64'')])) ''encoding'' \<noteq> Some (AString ''base64'')
   \<and> readFile NewFilesystemProvider sandbox_env notes_fs
       (tool_request ''filesystem.write''
         [(''path'', AString ''notes/a.txt''), (''content'', AString ''hi''),
          (''encoding'', AString ''BASE64'')])
     = \<lparr>tr_RequestID = ''req-1'', tr_Status = ''success'',
        tr_Result = Some (JSONPayload (FileContentJSON
           \<lparr>fc_Path = ''notes/a.txt'', fc_Content = ''hi'', fc_IsText = True\<rparr>)),
        tr_Error = None\<rparr>
   \<and> writeFile NewFilesystemProvider sandbox_env notes_fs
       (tool_request ''filesystem.write''
         [(''path'', AString ''notes/a.txt''), (''content'', AString ''hi''),
          (''encoding'', AString ''BASE64'')])
     = (\<lparr>tr_RequestID = ''req-1'', tr_Status = ''success'',
          tr_Result = Some (TextPayload ''File written successfully: notes/a.txt''),
          tr_Error = None\<rparr>, notes_fs)
   \<and> rq_Params (resource_request ''filesystem.file''
         [(''path'', AString ''notes/a.txt''), (''encoding'', ABool True)]) ''encoding''
       \<noteq> Some (AString ''base64'')
   \<and> loadFile NewFilesystemProvider sandbox_env notes_fs
       (resource_request ''filesystem.file''
         [(''path'', AString ''notes/a.txt''), (''encoding'', ABool True)])
     = \<lparr>rr_RequestID = ''req-1'', rr_Status = ''success'',
        rr_Content = Some (JSONPayload (FileContentJSON
           \<lparr>fc_Path = ''notes/a.txt'', fc_Content = ''hi'', fc_IsText = True\<rparr>)),
        rr_Error = None\<rparr>"
proof -
  let ?q = "tool_request ''filesystem.write''
         [(''path'', AString ''notes/a.txt''), (''content'', AString ''hi''),
          (''encoding'', AString ''BASE64'')]"
  let ?l = "resource_request ''filesystem.file''
         [(''path'', AString ''notes/a.txt''), (''encoding'', ABool True)]"
  have h: "Arguments (tq_Params ?q) ''encoding'' \<noteq> Some (AString ''base64'')"
    "rq_Params ?l ''encoding'' \<noteq> Some (AString ''base64'')"
    by (simp_all add: tool_request_def resource_request_def)
  note inst = encoding_defaults_to_text [of ?q NewFilesystemProvider sandbox_env notes_fs ?l]
  show ?thesis
    using inst h unfolding text_requests by blast
qed

section \<open>Deleting\<close>

text \<open>
  C5. When the path names an existing directory that has at least one entry and
  \<open>recursive\<close> is not \<open>true\<close>, \<open>delete\<close> returns the error envelope that reports the
  directory as not empty and advises \<open>recursive=true\<close>, and the file system it leaves is
  the one it found.
\<close>

theorem delete_nonempty_directory:
  assumes "Arguments (tq_Params request) ''path'' = Some (AString pathParam)"
    and "\<not> recursive_of (Arguments (tq_Params request))"
    and "resolvePath p env pathParam = Inr fullPath"
    and "namei env fs fullPath = Inr key"
    and "is_dir fs key"
    and "children fs key \<noteq> []"
  shows "deleteFile p env fs request
         = (\<lparr>tr_RequestID = tq_RequestID request, tr_Status = ''error'', tr_Result = None,
              tr_Error = Some \<lparr>Code = ''execution_error'',
                Message = ''Directory is not empty: '' @ pathParam @
                          ''. Use recursive=true to delete non-empty directories''\<rparr>\<rparr>, fs)"
proof -
  obtain m where m: "map_of fs key = Some (Dir m)"
    using assms(5) by (auto simp: is_dir_def split: option.splits node.splits)
  have st: "os_Stat env fs fullPath = Inr (stat_of env (Dir m))"
    using assms(4) m by (simp add: os_Stat_def)
  have d: "st_IsDir (stat_of env (Dir m))" by (simp add: stat_of_def)
  have rd: "os_ReadDir env fs fullPath = Inr (sort_key de_Name (children fs key))"
    using assms(4) m by (simp add: os_ReadDir_def)
  have ne: "length (sort_key de_Name (children fs key)) > 0"
    using assms(6) by simp
  show ?thesis
    unfolding deleteFile_def
    using assms(1,2,3) st d rd ne
    by (simp add: Let_def tool_error_def NewToolResultError_def)
qed

lemma notes_dir:
  "resolvePath NewFilesystemProvider sandbox_env ''notes'' = Inr ''/sandbox/notes''"
  "namei sandbox_env notes_fs ''/sandbox/notes'' = Inr [''sandbox'', ''notes'']"
  "is_dir notes_fs [''sandbox'', ''notes'']"
  "children notes_fs [''sandbox'', ''notes'']
     = [\<lparr>de_Name = ''a.txt'', de_node = File 7 ''hi''\<rparr>]"
  by code_simp+

theorem delete_nonempty_directory_witness:
  "deleteFile NewFilesystemProvider sandbox_env notes_fs
     (tool_request ''filesystem.delete'' [(''path'', AString ''notes''), (''recursive'', ABool False)])
   = (\<lparr>tr_RequestID = ''req-1'', tr_Status = ''error'', tr_Result = None,
        tr_Error = Some \<lparr>Code = ''execution_error'',
          Message = ''Directory is not empty: notes. Use recursive=true to delete non-empty directories''\<rparr>\<rparr>,
      notes_fs)"
  using delete_nonempty_directory [of "tool_request ''filesystem.delete''
      [(''path'', AString ''notes''), (''recursive'', ABool False)]" "''notes''"
      NewFilesystemProvider sandbox_env "''/sandbox/notes''" notes_fs "[''sandbox'', ''notes'']"]
  by (simp add: notes_dir tool_request_def recursive_of_def)

section \<open>Identifiers\<close>

lemma length_Split: "length (strings_Split s sep) = Suc (count_list s sep)"
  using Split_nonempty [of _ sep]
  by (induction s) (auto split: list.splits)

lemma parse_two:
  "CHR ''.'' \<notin> set a \<Longrightarrow> CHR ''.'' \<notin> set b \<Longrightarrow> ParseID (a @ ''.'' @ b) = [a, b]"
  by (simp add: ParseID_def Split_append Split_no_sep_id)

lemma parseToolID_bad:
  "count_list ident (CHR ''.'') \<noteq> 1 \<Longrightarrow>
   parseToolID ident = Inl (HTTPError 400 ''Invalid tool ID format. Expected: provider.tool'')"
proof -
  assume "count_list ident (CHR ''.'') \<noteq> 1"
  then have "length (ParseID ident) \<noteq> 2" by (simp add: ParseID_def length_Split)
  then show ?thesis
    by (auto simp: parseToolID_def split: list.splits)
qed

lemma parseResourceID_bad:
  "count_list ident (CHR ''.'') \<noteq> 1 \<Longrightarrow>
   parseResourceID ident
     = Inl (HTTPError 400 ''Invalid resource ID format. Expected: provider.resource'')"
proof -
  assume "count_list ident (CHR ''.'') \<noteq> 1"
  then have "length (ParseID ident) \<noteq> 2" by (simp add: ParseID_def length_Split)
  then show ?thesis
    by (auto simp: parseResourceID_def split: list.splits)
qed

text \<open>
  C3 (as amended). A tool or resource identifier that does not hold exactly one \<open>.\<close>
  (so does not split into exactly two components) is answered with the invalid-identifier
  error, HTTP 400, whatever providers are registered and without any change of their
  state: no provider is invoked. An identifier \<open>a.b\<close> with exactly one \<open>.\<close> passes the
  format check even when \<open>a\<close> or \<open>b\<close> is empty: \<open>a\<close> is looked up in the registry and, when
  a provider is found, \<open>b\<close> is handed to it.
\<close>

theorem dispatch_identifier_format:
  "(count_list (ToolID request) (CHR ''.'') \<noteq> 1 \<longrightarrow>
      handleCallTool env s (Some request) w
      = ((400, ErrorBody \<lparr>er_Error = ''invalid_tool_id'',
            er_Message = Error env (HTTPError 400 ''Invalid tool ID format. Expected: provider.tool'')\<rparr>), w))
   \<and> (count_list (ResourceID lrequest) (CHR ''.'') \<noteq> 1 \<longrightarrow>
      handleLoadResource env s (Some lrequest) w
      = ((400, ErrorBody \<lparr>er_Error = ''invalid_resource_id'',
            er_Message = Error env (HTTPError 400 ''Invalid resource ID format. Expected: provider.resource'')\<rparr>), w))
   \<and> (CHR ''.'' \<notin> set a \<and> CHR ''.'' \<notin> set b \<and> ToolID request2 = a @ ''.'' @ b \<longrightarrow>
      handleCallTool env s (Some request2) w
      = (case Providers s a of
           None \<Rightarrow>
             ((404, ErrorBody \<lparr>er_Error = ''provider_not_found'',
                               er_Message = ''Provider not found: '' @ a\<rparr>), w)
         | Some provider \<Rightarrow>
             (case CallTool provider b request2 w of
                ((result, Some err), w') \<Rightarrow>
                  ((500, ErrorBody \<lparr>er_Error = ''tool_execution_error'',
                                    er_Message = Error env err\<rparr>), w')
              | ((result, None), w') \<Rightarrow>
                  ((200, ToolBody (if tr_RequestID result = []
                                   then result\<lparr>tr_RequestID := tq_RequestID request2\<rparr>
                                   else result)), w'))))
   \<and> (CHR ''.'' \<notin> set c \<and> CHR ''.'' \<notin> set d \<and> ResourceID lrequest2 = c @ ''.'' @ d \<longrightarrow>
      handleLoadResource env s (Some lrequest2) w
      = (case Providers s c of
           None \<Rightarrow>
             ((404, ErrorBody \<lparr>er_Error = ''provider_not_found'',
                               er_Message = ''Provider not found: '' @ c\<rparr>), w)
         | Some provider \<Rightarrow>
             (case LoadResource provider d lrequest2 w of
                ((result, Some err), w') \<Rightarrow>
                  ((500, ErrorBody \<lparr>er_Error = ''resource_load_error'',
                                    er_Message = Error env err\<rparr>), w')
              | ((result, None), w') \<Rightarrow>
                  ((200, ResourceBody (if rr_RequestID result = []
                                       then result\<lparr>rr_RequestID := rq_RequestID lrequest2\<rparr>
                                       else result)), w'))))"
proof (intro conjI impI)
  assume "count_list (ToolID request) (CHR ''.'') \<noteq> 1"
  then show "handleCallTool env s (Some request) w
      = ((400, ErrorBody \<lparr>er_Error = ''invalid_tool_id'',
            er_Message = Error env (HTTPError 400 ''Invalid tool ID format. Expected: provider.tool'')\<rparr>), w)"
    by (simp add: handleCallTool_def parseToolID_bad)
next
  assume "count_list (ResourceID lrequest) (CHR ''.'') \<noteq> 1"
  then show "handleLoadResource env s (Some lrequest) w
      = ((400, ErrorBody \<lparr>er_Error = ''invalid_resource_id'',
            er_Message = Error env (HTTPError 400 ''Invalid resource ID format. Expected: provider.resource'')\<rparr>), w)"
    by (simp add: handleLoadResource_def parseResourceID_bad)
next
  assume "CHR ''.'' \<notin> set a \<and> CHR ''.'' \<notin> set b \<and> ToolID request2 = a @ ''.'' @ b"
  then have "parseToolID (ToolID request2) = Inr (a, b)"
    using parse_two [of a b] by (simp add: parseToolID_def)
  then show "handleCallTool env s (Some request2) w
      = (case Providers s a of
           None \<Rightarrow>
             ((404, ErrorBody \<lparr>er_Error = ''provider_not_found'',
                               er_Message = ''Provider not found: '' @ a\<rparr>), w)
         | Some provider \<Rightarrow>
             (case CallTool provider b request2 w of
                ((result, Some err), w') \<Rightarrow>
                  ((500, ErrorBody \<lparr>er_Error = ''tool_execution_error'',
                                    er_Message = Error env err\<rparr>), w')
              | ((result, None), w') \<Rightarrow>
                  ((200, ToolBody (if tr_RequestID result = []
                                   then result\<lparr>tr_RequestID := tq_RequestID request2\<rparr>
                                   else result)), w')))"
    by (simp add: handleCallTool_def)
next
  assume "CHR ''.'' \<notin> set c \<and> CHR ''.'' \<notin> set d \<and> ResourceID lrequest2 = c @ ''.'' @ d"
  then have "parseResourceID (ResourceID lrequest2) = Inr (c, d)"
    using parse_two [of c d] by (simp add: parseResourceID_def)
  then show "handleLoadResource env s (Some lrequest2) w
      = (case Providers s c of
           None \<Rightarrow>
             ((404, ErrorBody \<lparr>er_Error = ''provider_not_found'',
                               er_Message = ''Provider not found: '' @ c\<rparr>), w)
         | Some provider \<Rightarrow>
             (case LoadResource provider d lrequest2 w of
                ((result, Some err), w') \<Rightarrow>
                  ((500, ErrorBody \<lparr>er_Error = ''resource_load_error'',
                                    er_Message = Error env err\<rparr>), w')
              | ((result, None), w') \<Rightarrow>
                  ((200, ResourceBody (if rr_RequestID result = []
                                       then result\<lparr>rr_RequestID := rq_RequestID lrequest2\<rparr>
                                       else result)), w')))"
    by (simp add: handleLoadResource_def)
qed

lemma dispatch_examples:
  "handleCallTool sandbox_env main_server (Some (tool_request ''a.b.c'' [])) sandbox_fs
   = ((400, ErrorBody \<lparr>er_Error = ''invalid_tool_id'',
         er_Message = ''Invalid tool ID format. Expected: provider.tool''\<rparr>), sandbox_fs)"
  "handleLoadResource sandbox_env main_server (Some (resource_request ''filesystem'' [])) sandbox_fs
   = ((400, ErrorBody \<lparr>er_Error = ''invalid_resource_id'',
         er_Message = ''Invalid resource ID format. Expected: provider.resource''\<rparr>), sandbox_fs)"
  "handleCallTool sandbox_env main_server (Some (tool_request ''.list'' [])) sandbox_fs
   = ((404, ErrorBody \<lparr>er_Error = ''provider_not_found'',
         er_Message = ''Provider not found: ''\<rparr>), sandbox_fs)"
  "handleLoadResource sandbox_env main_server (Some (resource_request ''filesystem.'' [])) sandbox_fs
   = ((200, ResourceBody \<lparr>rr_RequestID = ''req-1'', rr_Status = ''error'', rr_Content = None,
         rr_Error = Some \<lparr>Code = ''unknown_resource'', Message = ''Unknown resource: ''\<rparr>\<rparr>),
      sandbox_fs)"
  by code_simp+

theorem dispatch_identifier_format_witness:
  "count_list ''a.b.c'' (CHR ''.'') \<noteq> 1
   \<and> handleCallTool sandbox_env main_server (Some (tool_request ''a.b.c'' [])) sandbox_fs
     = ((400, ErrorBody \<lparr>er_Error = ''invalid_tool_id'',
           er_Message = ''Invalid tool ID format. Expected: provider.tool''\<rparr>), sandbox_fs)
   \<and> count_list ''filesystem'' (CHR ''.'') \<noteq> 1
   \<and> handleLoadResource sandbox_env main_server (Some (resource_request ''filesystem'' []))
       sandbox_fs
     = ((400, ErrorBody \<lparr>er_Error = ''invalid_resource_id'',
           er_Message = ''Invalid resource ID format. Expected: provider.resource''\<rparr>), sandbox_fs)
   \<and> CHR ''.'' \<notin> set [] \<and> CHR ''.'' \<notin> set ''list''
   \<and> handleCallTool sandbox_env main_server (Some (tool_request ''.list'' [])) sandbox_fs
     = ((404, ErrorBody \<lparr>er_Error = ''provider_not_found'',
           er_Message = ''Provider not found: ''\<rparr>), sandbox_fs)
   \<and> CHR ''.'' \<notin> set ''filesystem''
   \<and> handleLoadResource sandbox_env main_server (Some (resource_request ''filesystem.'' []))
       sandbox_fs
     = ((200, ResourceBody \<lparr>rr_RequestID = ''req-1'', rr_Status = ''error'', rr_Content = None,
           rr_Error = Some \<lparr>Code = ''unknown_resource'', Message = ''Unknown resource: ''\<rparr>\<rparr>),
        sandbox_fs)"
  using dispatch_identifier_format [of "tool_request ''a.b.c'' []" sandbox_env main_server
      sandbox_fs "resource_request ''filesystem'' []" "[]" "''list''"
      "tool_request ''.list'' []" "''filesystem''" "[]" "resource_request ''filesystem.'' []"]
    dispatch_examples
  by (simp add: tool_request_def resource_request_def)

text \<open>
  The claim as first stated fails: \<open>filesystem.\<close> has an empty capability component, yet
  it is not answered with the invalid-identifier error; the provider is invoked and answers
  \<open>unknown_tool\<close>.
\<close>

theorem empty_component_counterexample:
  "ParseID ''filesystem.'' = [''filesystem'', []]
   \<and> handleCallTool sandbox_env main_server (Some (tool_request ''filesystem.'' [])) sandbox_fs
     = ((200, ToolBody \<lparr>tr_RequestID = ''req-1'', tr_Status = ''error'', tr_Result = None,
           tr_Error = Some \<lparr>Code = ''unknown_tool'', Message = ''Unknown tool: ''\<rparr>\<rparr>),
        sandbox_fs)"
  by code_simp

section \<open>The file system under writes\<close>

lemma is_dir_iff: "is_dir fs k \<longleftrightarrow> (\<exists>m. map_of fs k = Some (Dir m))"
  by (auto simp: is_dir_def split: option.splits node.splits)

lemma walk_keeps_dirs:
  "keeps_dirs fs fs' \<Longrightarrow> walk fs es key = Inr r \<Longrightarrow> walk fs' es key = Inr r"
proof (induction es arbitrary: key)
  case Nil
  then show ?case by simp
next
  case (Cons e es)
  from Cons.prems(2) obtain m where m: "map_of fs key = Some (Dir m)"
    by (auto split: option.splits node.splits)
  then have "is_dir fs' key" using Cons.prems(1) by (auto simp: keeps_dirs_def is_dir_iff)
  then obtain m' where m': "map_of fs' key = Some (Dir m')" by (auto simp: is_dir_iff)
  show ?case using Cons.prems(2) m m' Cons.IH [OF Cons.prems(1)]
    by (auto split: if_splits)
qed

lemma walk_start_keeps_dirs:
  assumes "keeps_dirs fs fs'" "getwd env' = getwd env" "walk_start env fs name = Inr start"
  shows "walk_start env' fs' name = Inr start"
  using assms(2,3) walk_keeps_dirs [OF assms(1)]
  by (auto simp: walk_start_def split: if_splits sum.splits)

lemma namei_keeps_dirs:
  assumes "keeps_dirs fs fs'" "getwd env' = getwd env" "namei env fs name = Inr key"
  shows "namei env' fs' name = Inr key"
proof -
  from assms(3) obtain start where s: "walk_start env fs name = Inr start"
    and w: "walk fs (strings_Split name (CHR ''/'')) start = Inr key"
    by (auto simp: namei_def split: sum.splits)
  show ?thesis
    using walk_start_keeps_dirs [OF assms(1,2) s] walk_keeps_dirs [OF assms(1) w]
    by (simp add: namei_def)
qed


lemma keeps_dirs_trans: "keeps_dirs a b \<Longrightarrow> keeps_dirs b c \<Longrightarrow> keeps_dirs a c"
  by (simp add: keeps_dirs_def)

text \<open>Opening for writing changes the file opened and, when it creates it, its directory.\<close>

lemma open_truncate_success:
  assumes "open_truncate env fs name = (Inr key, fs1)"
  shows "namei env fs name = Inr key" and "keeps_dirs fs fs1"
    and "\<forall>k. map_of fs1 k \<noteq> map_of fs k \<longrightarrow>
           k = key \<or> (k = butlast key \<and> is_dir fs k \<and> map_of fs1 k = Some (Dir (clock env)))"
proof -
  from assms obtain key' where key': "namei env fs name = Inr key'"
    by (auto simp: open_truncate_def split: sum.splits)
  have eq: "key' = key"
    using assms key'
    by (auto simp: open_truncate_def split: option.splits node.splits if_splits)
  show "namei env fs name = Inr key" using key' eq by simp
  consider (create) "map_of fs key = None" "parent_is_dir fs key"
      "fs1 = AList.update key (File (clock env) []) (touch_parent env key fs)"
    | (trunc) m d where "map_of fs key = Some (File m d)"
      "fs1 = AList.update key (File (clock env) []) fs"
    using assms key' eq
    by (auto simp: open_truncate_def split: option.splits node.splits if_splits)
  then show "keeps_dirs fs fs1"
    by cases (auto simp: keeps_dirs_def is_dir_iff update_conv' touch_parent_def)
  from \<open>namei env fs name = Inr key\<close> assms
  consider (create) "map_of fs key = None" "parent_is_dir fs key"
      "fs1 = AList.update key (File (clock env) []) (touch_parent env key fs)"
    | (trunc) m d where "map_of fs key = Some (File m d)"
      "fs1 = AList.update key (File (clock env) []) fs"
    by (auto simp: open_truncate_def split: option.splits node.splits if_splits)
  then show "\<forall>k. map_of fs1 k \<noteq> map_of fs k \<longrightarrow>
           k = key \<or> (k = butlast key \<and> is_dir fs k \<and> map_of fs1 k = Some (Dir (clock env)))"
    by cases (auto simp: update_conv' touch_parent_def parent_is_dir_def split: if_splits)
qed


lemma file_Write_result:
  assumes "file_Write env fs1 name key data = (r, fs2)"
  shows "\<exists>d. fs2 = AList.update key (File (clock env) d) fs1
           \<and> (case r of
                 None \<Rightarrow> d = data
               | Some err \<Rightarrow> \<exists>n. disk_free env = Some n \<and> n < length data \<and> d = take n data)"
  using assms by (auto simp: file_Write_def split: option.splits if_splits)

lemma update_file_keeps_dirs:
  "\<not> is_dir fs key \<Longrightarrow> keeps_dirs fs (AList.update key (File m d) fs)"
  by (auto simp: keeps_dirs_def is_dir_iff update_conv')

lemma WriteFile_success:
  assumes "os_WriteFile env fs name data = (None, fs')"
  shows "\<exists>key. namei env fs name = Inr key \<and> keeps_dirs fs fs'
           \<and> map_of fs' key = Some (File (clock env) data)"
proof -
  from assms obtain key fs1 where o: "open_truncate env fs name = (Inr key, fs1)"
    and w: "file_Write env fs1 name key data = (None, fs')"
    by (auto simp: os_WriteFile_def split: prod.splits sum.splits)
  from file_Write_result [OF w] have fs': "fs' = AList.update key (File (clock env) data) fs1"
    by auto
  have f1: "\<not> is_dir fs1 key"
    using o by (auto simp: open_truncate_def is_dir_iff update_conv'
        split: sum.splits option.splits node.splits if_splits)
  have "keeps_dirs fs fs'"
    using open_truncate_success(2) [OF o] update_file_keeps_dirs [OF f1] keeps_dirs_trans
    unfolding fs' by blast
  then show ?thesis
    using open_truncate_success(1) [OF o] by (auto simp: fs' update_conv')
qed


lemma read_after_write:
  assumes "os_WriteFile env fs name data = (None, fs')" "getwd env' = getwd env"
  shows "os_Stat env' fs' name
           = Inr \<lparr>st_IsDir = False, st_Size = int (length data), st_ModTime = clock env\<rparr>"
    and "os_ReadFile env' fs' name = Inr data"
proof -
  from WriteFile_success [OF assms(1)] obtain key where
    key: "namei env fs name = Inr key" and kd: "keeps_dirs fs fs'"
    and f: "map_of fs' key = Some (File (clock env) data)" by blast
  have n: "namei env' fs' name = Inr key" using namei_keeps_dirs [OF kd assms(2) key] .
  show "os_Stat env' fs' name
           = Inr \<lparr>st_IsDir = False, st_Size = int (length data), st_ModTime = clock env\<rparr>"
    using n f by (simp add: os_Stat_def stat_of_def)
  show "os_ReadFile env' fs' name = Inr data"
    using n f by (simp add: os_ReadFile_def)
qed







lemma Abs_getwd: "getwd env' = getwd env \<Longrightarrow> filepath_Abs env' = filepath_Abs env"
  by (rule ext) (simp add: filepath_Abs_def)

lemma resolvePath_getwd:
  assumes "getwd env' = getwd env"
  shows "resolvePath p env' path = resolvePath p env path"
  unfolding resolvePath_def Abs_getwd [OF assms] ..

lemma writeFile_success:
  assumes "writeFile p env fs request = (result, fs')" "tr_Status result = ''success''"
    and "Arguments (tq_Params request) ''path'' = Some (AString pathParam)"
    and "Arguments (tq_Params request) ''content'' = Some (AString contentParam)"
    and "encoding_of (Arguments (tq_Params request)) \<noteq> ''base64''"
  shows "\<exists>fullPath fs1. resolvePath p env pathParam = Inr fullPath
           \<and> os_WriteFile env fs1 fullPath contentParam = (None, fs')"
  using assms unfolding writeFile_def
  by (auto simp: Let_def tool_error_fields split: sum.splits prod.splits option.splits)

section \<open>Writing and reading back\<close>

text \<open>
  C4. If \<open>write\<close> with \<open>{path, content, encoding: text}\<close> succeeds, then \<open>read\<close> of the
  same path (by the same provider, in the same working directory) with encoding \<open>text\<close>
  returns the content with \<open>is_text\<close> true, and with encoding \<open>base64\<close> it returns, with
  \<open>is_text\<close> false, a string whose standard base64 decoding is the content.
\<close>

theorem write_then_read_roundtrip:
  assumes "writeFile p env fs wrequest = (result, fs')"
    and "tr_Status result = ''success''"
    and "Arguments (tq_Params wrequest) ''path'' = Some (AString path)"
    and "Arguments (tq_Params wrequest) ''content'' = Some (AString c)"
    and "Arguments (tq_Params wrequest) ''encoding'' = Some (AString ''text'')"
    and "getwd env' = getwd env"
    and "Arguments (tq_Params rrequest) ''path'' = Some (AString path)"
    and "Arguments (tq_Params rrequest) ''encoding'' = Some (AString ''text'')"
    and "Arguments (tq_Params brequest) ''path'' = Some (AString path)"
    and "Arguments (tq_Params brequest) ''encoding'' = Some (AString ''base64'')"
  shows "readFile p env' fs' rrequest
           = \<lparr>tr_RequestID = tq_RequestID rrequest, tr_Status = ''success'',
              tr_Result = Some (JSONPayload (FileContentJSON
                \<lparr>fc_Path = path, fc_Content = c, fc_IsText = True\<rparr>)),
              tr_Error = None\<rparr>
         \<and> readFile p env' fs' brequest
           = \<lparr>tr_RequestID = tq_RequestID brequest, tr_Status = ''success'',
              tr_Result = Some (JSONPayload (FileContentJSON
                \<lparr>fc_Path = path, fc_Content = base64_EncodeToString c, fc_IsText = False\<rparr>)),
              tr_Error = None\<rparr>
         \<and> base64_DecodeString (base64_EncodeToString c) = Inr c"
proof -
  have "encoding_of (Arguments (tq_Params wrequest)) \<noteq> ''base64''"
    using assms(5) by (simp add: encoding_of_def)
  from writeFile_success [OF assms(1,2,3,4) this]
  obtain fullPath fs1 where r: "resolvePath p env path = Inr fullPath"
    and w: "os_WriteFile env fs1 fullPath c = (None, fs')" by blast
  have r': "resolvePath p env' path = Inr fullPath"
    using r resolvePath_getwd [OF assms(6)] by simp
  note st = read_after_write(1) [OF w assms(6)]
  note rd = read_after_write(2) [OF w assms(6)]
  have "readFile p env' fs' rrequest
           = \<lparr>tr_RequestID = tq_RequestID rrequest, tr_Status = ''success'',
              tr_Result = Some (JSONPayload (FileContentJSON
                \<lparr>fc_Path = path, fc_Content = c, fc_IsText = True\<rparr>)),
              tr_Error = None\<rparr>"
    unfolding readFile_def using assms(7,8) r' st rd
    by (simp add: Let_def encoding_of_def file_content_def NewToolResultJSON_def)
  moreover have "readFile p env' fs' brequest
           = \<lparr>tr_RequestID = tq_RequestID brequest, tr_Status = ''success'',
              tr_Result = Some (JSONPayload (FileContentJSON
                \<lparr>fc_Path = path, fc_Content = base64_EncodeToString c, fc_IsText = False\<rparr>)),
              tr_Error = None\<rparr>"
    unfolding readFile_def using assms(9,10) r' st rd
    by (simp add: Let_def encoding_of_def file_content_def NewToolResultJSON_def)
  ultimately show ?thesis by (simp add: Decode_Encode)
qed

lemma notes_written:
  "writeFile NewFilesystemProvider sandbox_env sandbox_fs
     (tool_request ''filesystem.write''
        [(''path'', AString ''notes/a.txt''), (''content'', AString ''hi''),
         (''encoding'', AString ''text'')])
   = (\<lparr>tr_RequestID = ''req-1'', tr_Status = ''success'',
        tr_Result = Some (TextPayload ''File written successfully: notes/a.txt''),
        tr_Error = None\<rparr>, notes_fs)"
  by code_simp

lemma hi_base64: "base64_EncodeToString ''hi'' = ''aGk=''"
  by (simp add: Let_def pack3_def sextet_def b64_char_def b64_alphabet_def)

theorem write_then_read_roundtrip_witness:
  "writeFile NewFilesystemProvider sandbox_env sandbox_fs
     (tool_request ''filesystem.write''
        [(''path'', AString ''notes/a.txt''), (''content'', AString ''hi''),
         (''encoding'', AString ''text'')])
   = (\<lparr>tr_RequestID = ''req-1'', tr_Status = ''success'',
        tr_Result = Some (TextPayload ''File written successfully: notes/a.txt''),
        tr_Error = None\<rparr>, notes_fs)
   \<and> readFile NewFilesystemProvider sandbox_env notes_fs
       (tool_request ''filesystem.read''
          [(''path'', AString ''notes/a.txt''), (''encoding'', AString ''text'')])
     = \<lparr>tr_RequestID = ''req-1'', tr_Status = ''success'',
        tr_Result = Some (JSONPayload (FileContentJSON
          \<lparr>fc_Path = ''notes/a.txt'', fc_Content = ''hi'', fc_IsText = True\<rparr>)),
        tr_Error = None\<rparr>
   \<and> readFile NewFilesystemProvider sandbox_env notes_fs
       (tool_request ''filesystem.read''
          [(''path'', AString ''notes/a.txt''), (''encoding'', AString ''base64'')])
     = \<lparr>tr_RequestID = ''req-1'', tr_Status = ''success'',
        tr_Result = Some (JSONPayload (FileContentJSON
          \<lparr>fc_Path = ''notes/a.txt'', fc_Content = ''aGk='', fc_IsText = False\<rparr>)),
        tr_Error = None\<rparr>
   \<and> base64_DecodeString ''aGk='' = Inr ''hi''"
proof -
  let ?w = "tool_request ''filesystem.write''
        [(''path'', AString ''notes/a.txt''), (''content'', AString ''hi''),
         (''encoding'', AString ''text'')]"
  let ?r = "tool_request ''filesystem.read''
          [(''path'', AString ''notes/a.txt''), (''encoding'', AString ''text'')]"
  let ?b = "tool_request ''filesystem.read''
          [(''path'', AString ''notes/a.txt''), (''encoding'', AString ''base64'')]"
  have args:
    "Arguments (tq_Params ?w) ''path'' = Some (AString ''notes/a.txt'')"
    "Arguments (tq_Params ?w) ''content'' = Some (AString ''hi'')"
    "Arguments (tq_Params ?w) ''encoding'' = Some (AString ''text'')"
    "Arguments (tq_Params ?r) ''path'' = Some (AString ''notes/a.txt'')"
    "Arguments (tq_Params ?r) ''encoding'' = Some (AString ''text'')"
    "Arguments (tq_Params ?b) ''path'' = Some (AString ''notes/a.txt'')"
    "Arguments (tq_Params ?b) ''encoding'' = Some (AString ''base64'')"
    by (simp_all add: tool_request_def)
  have ids: "tq_RequestID ?r = ''req-1''" "tq_RequestID ?b = ''req-1''"
    by (simp_all add: tool_request_def)
  have "tr_Status \<lparr>tr_RequestID = ''req-1'', tr_Status = ''success'',
        tr_Result = Some (TextPayload ''File written successfully: notes/a.txt''),
        tr_Error = None\<rparr> = ''success''" by simp
  note inst = write_then_read_roundtrip [OF notes_written this args(1,2,3) refl args(4,5,6,7)]
  show ?thesis
    using inst notes_written unfolding hi_base64 ids by simp
qed

section \<open>Failures and side effects\<close>








text \<open>
  Recursive deletes are left out above because \<open>os.RemoveAll\<close> can fail after it has
  removed part of a tree: asked to delete \<open>/\<close> recursively, it removes everything below
  the root and then reports that the root itself cannot be removed.
\<close>

lemma recursive_delete_of_root:
  "deleteFile NewFilesystemProvider sandbox_env notes_fs
     (tool_request ''filesystem.delete'' [(''path'', AString ''/''), (''recursive'', ABool True)])
   = (\<lparr>tr_RequestID = ''req-1'', tr_Status = ''error'', tr_Result = None,
       tr_Error = Some \<lparr>Code = ''execution_error'',
         Message = ''Error deleting directory: ''
                   @ Error sandbox_env (PathError ''unlinkat'' ''/'' EBUSY)\<rparr>\<rparr>,
      [([], Dir 0)])"
  by code_simp

end
